theory Spec2Isabelle
  imports Complex_Main "HOL-Library.Word"
begin

section \<open>Numbers\<close>

text \<open>
  Go's \<open>uint\<close> is modelled as a 64-bit word wherever the program adds or multiplies it
  (concurrence weights and their sums): \<open>+\<close> and \<open>*\<close> on \<open>64 word\<close> wrap
  around as Go's do.  Node ids, group indices and lengths are also \<open>uint\<close> in the
  source, but they are only compared, used as indices and as map keys; they are modelled
  as \<open>nat\<close>.

  A \<open>float64\<close> is modelled by its IEEE special values and, for finite values, by the
  exact rational it denotes: rounding and the sign of zero are not modelled.  Division
  by zero, the infinities and NaN behave as in Go.
\<close>

type_synonym uint = "64 word"

datatype float64 = Finite rat | PosInf | NegInf | NaN

fun fadd :: "float64 \<Rightarrow> float64 \<Rightarrow> float64" where
  "fadd NaN _ = NaN"
| "fadd _ NaN = NaN"
| "fadd PosInf NegInf = NaN"
| "fadd NegInf PosInf = NaN"
| "fadd PosInf _ = PosInf"
| "fadd _ PosInf = PosInf"
| "fadd NegInf _ = NegInf"
| "fadd _ NegInf = NegInf"
| "fadd (Finite a) (Finite b) = Finite (a + b)"

fun fneg :: "float64 \<Rightarrow> float64" where
  "fneg NaN = NaN"
| "fneg PosInf = NegInf"
| "fneg NegInf = PosInf"
| "fneg (Finite a) = Finite (- a)"

fun fsign_mul :: "bool \<Rightarrow> bool \<Rightarrow> float64" where
  "fsign_mul s t = (if s = t then PosInf else NegInf)"

fun fmul :: "float64 \<Rightarrow> float64 \<Rightarrow> float64" where
  "fmul NaN _ = NaN"
| "fmul _ NaN = NaN"
| "fmul (Finite a) (Finite b) = Finite (a * b)"
| "fmul (Finite a) PosInf = (if a = 0 then NaN else fsign_mul (a < 0) False)"
| "fmul (Finite a) NegInf = (if a = 0 then NaN else fsign_mul (a < 0) True)"
| "fmul PosInf (Finite b) = (if b = 0 then NaN else fsign_mul False (b < 0))"
| "fmul NegInf (Finite b) = (if b = 0 then NaN else fsign_mul True (b < 0))"
| "fmul PosInf PosInf = PosInf"
| "fmul PosInf NegInf = NegInf"
| "fmul NegInf PosInf = NegInf"
| "fmul NegInf NegInf = PosInf"

fun fdiv :: "float64 \<Rightarrow> float64 \<Rightarrow> float64" where
  "fdiv NaN _ = NaN"
| "fdiv _ NaN = NaN"
| "fdiv (Finite a) (Finite b) =
     (if b = 0 then (if a = 0 then NaN else if 0 < a then PosInf else NegInf)
      else Finite (a / b))"
| "fdiv (Finite a) PosInf = Finite 0"
| "fdiv (Finite a) NegInf = Finite 0"
| "fdiv PosInf (Finite b) = fsign_mul False (b < 0)"
| "fdiv NegInf (Finite b) = fsign_mul True (b < 0)"
| "fdiv PosInf PosInf = NaN"
| "fdiv PosInf NegInf = NaN"
| "fdiv NegInf PosInf = NaN"
| "fdiv NegInf NegInf = NaN"

fun flt :: "float64 \<Rightarrow> float64 \<Rightarrow> bool" where
  "flt NaN _ = False"
| "flt _ NaN = False"
| "flt (Finite a) (Finite b) = (a < b)"
| "flt (Finite a) PosInf = True"
| "flt (Finite a) NegInf = False"
| "flt PosInf _ = False"
| "flt NegInf NegInf = False"
| "flt NegInf _ = True"

fun fle :: "float64 \<Rightarrow> float64 \<Rightarrow> bool" where
  "fle NaN _ = False"
| "fle _ NaN = False"
| "fle (Finite a) (Finite b) = (a \<le> b)"
| "fle (Finite a) PosInf = True"
| "fle (Finite a) NegInf = False"
| "fle PosInf PosInf = True"
| "fle PosInf _ = False"
| "fle NegInf _ = True"

text \<open>Go's \<open>==\<close> on floats: NaN is equal to nothing.\<close>

definition feq :: "float64 \<Rightarrow> float64 \<Rightarrow> bool" where
  "feq a b = (a \<noteq> NaN \<and> b \<noteq> NaN \<and> a = b)"

text \<open>\<open>math.Min\<close>: NaN if either argument is NaN, otherwise the smaller one.\<close>

definition math_Min :: "float64 \<Rightarrow> float64 \<Rightarrow> float64" where
  "math_Min x y = (if x = NaN \<or> y = NaN then NaN else if flt y x then y else x)"

instantiation float64 :: comm_monoid_add
begin

definition zero_float64 :: float64 where
  "zero_float64 = Finite 0"

definition plus_float64 :: "float64 \<Rightarrow> float64 \<Rightarrow> float64" where
  "plus_float64 = fadd"

instance
proof
  fix a b c :: float64
  show "a + b + c = a + (b + c)"
    unfolding plus_float64_def by (cases a; cases b; cases c) simp_all
  show "a + b = b + a"
    unfolding plus_float64_def by (cases a; cases b) simp_all
  show "0 + a = a"
    unfolding plus_float64_def zero_float64_def by (cases a) simp_all
qed

end

instantiation float64 :: "{uminus, minus, times, inverse, ord, one}"
begin

definition uminus_float64 :: "float64 \<Rightarrow> float64" where
  "uminus_float64 = fneg"

definition minus_float64 :: "float64 \<Rightarrow> float64 \<Rightarrow> float64" where
  "minus_float64 a b = fadd a (fneg b)"

definition times_float64 :: "float64 \<Rightarrow> float64 \<Rightarrow> float64" where
  "times_float64 = fmul"

definition one_float64 :: float64 where
  "one_float64 = Finite 1"

definition divide_float64 :: "float64 \<Rightarrow> float64 \<Rightarrow> float64" where
  "divide_float64 = fdiv"

definition inverse_float64 :: "float64 \<Rightarrow> float64" where
  "inverse_float64 a = fdiv (Finite 1) a"

definition less_float64 :: "float64 \<Rightarrow> float64 \<Rightarrow> bool" where
  "less_float64 = flt"

definition less_eq_float64 :: "float64 \<Rightarrow> float64 \<Rightarrow> bool" where
  "less_eq_float64 = fle"

instance ..

end

text \<open>\<open>float64(x)\<close> for an unsigned integer \<open>x\<close>.\<close>

definition float64_of_uint :: "uint \<Rightarrow> float64" where
  "float64_of_uint w = Finite (of_nat (unat w))"

definition float64_of_nat :: "nat \<Rightarrow> float64" where
  "float64_of_nat k = Finite (of_nat k)"

text \<open>
  A loop over a Go map that acts on the keys passing a test acts on \<open>keep test keys\<close>.
\<close>

definition keep :: "('a \<Rightarrow> bool) \<Rightarrow> 'a set \<Rightarrow> 'a set" where
  "keep P A = {a \<in> A. P a}"

section \<open>The concurrence model\<close>

text \<open>
  \<open>map[uint]map[uint]uint\<close> is a map of maps; \<open>map[uint]bool\<close>, of which the program
  only ever reads the keys, is the set of its keys.  A Go map is finite.
\<close>

type_synonym concurrences = "nat \<rightharpoonup> (nat \<rightharpoonup> uint)"

type_synonym community = "nat set"

record ConcurrenceModel =
  cm_n :: nat
  sumConcurrences :: uint
  sumConcurrencesOf :: "uint list"
  meanConcurrenceOf :: "float64 list"
  varConcurrenceOf :: "float64 list"
  concurrences :: concurrences

text \<open>
  \<open>log.Fatal\<close> and \<open>log.Fatalln\<close> end the process, and so does a run-time panic: each
  is a value of \<open>error\<close>, and a function that can reach one returns \<open>error + 'a\<close>.
\<close>

datatype error =
    AsymmetricConcurrence
  | MaxNodeIDGeN
  | PointGeN
  | PointInMultipleCommunities
  | InvalidSimilarityMatrix
  | IndexOutOfRange
  | MakesliceLenOutOfRange

definition NewConcurrenceModel :: ConcurrenceModel where
  "NewConcurrenceModel =
     \<lparr>cm_n = 0, sumConcurrences = 0, sumConcurrencesOf = [], meanConcurrenceOf = [],
      varConcurrenceOf = [], concurrences = Map.empty\<rparr>"

text \<open>
  \<open>verifyConcurrences\<close>.  The loop leaves \<open>maxNodeID\<close> at the largest of \<open>0\<close>, the
  keys of the outer map and the keys of every row, unless it stops at an asymmetric
  entry first.  The check against \<open>n\<close> comes after the loop.
\<close>

definition nodeIDs :: "concurrences \<Rightarrow> nat set" where
  "nodeIDs c = dom c \<union> (\<Union>u\<in>dom c. dom (the (c u)))"

definition maxNodeID :: "concurrences \<Rightarrow> nat" where
  "maxNodeID c = Max (insert 0 (nodeIDs c))"

definition asymmetricAt :: "concurrences \<Rightarrow> nat \<Rightarrow> nat \<Rightarrow> bool" where
  "asymmetricAt c u v =
     (case c v of
        None \<Rightarrow> True
      | Some weightsOfV \<Rightarrow>
          (case weightsOfV u of
             None \<Rightarrow> True
           | Some weightVU \<Rightarrow> weightVU \<noteq> the (the (c u) v)))"

definition verifyConcurrences :: "nat \<Rightarrow> concurrences \<Rightarrow> error + unit" where
  "verifyConcurrences k c =
     (if \<exists>u\<in>dom c. \<exists>v\<in>dom (the (c u)). asymmetricAt c u v then Inl AsymmetricConcurrence
      else if maxNodeID c \<ge> k then Inl MaxNodeIDGeN
      else Inr ())"

definition sumRow :: "concurrences \<Rightarrow> nat \<Rightarrow> uint" where
  "sumRow c u =
     (case c u of
        None \<Rightarrow> 0
      | Some weightsOfU \<Rightarrow> (\<Sum>v\<in>dom weightsOfU. the (weightsOfU v)))"

definition getSumConcurrencesOf :: "nat \<Rightarrow> concurrences \<Rightarrow> uint list" where
  "getSumConcurrencesOf k c = map (sumRow c) [0..<k]"

text \<open>\<open>len(concurrence[u])\<close>: a missing row is the nil map, of length 0.\<close>

definition lenRow :: "concurrences \<Rightarrow> nat \<Rightarrow> nat" where
  "lenRow c u = (case c u of None \<Rightarrow> 0 | Some weightsOfU \<Rightarrow> card (dom weightsOfU))"

definition meanOf :: "concurrences \<Rightarrow> nat \<Rightarrow> float64" where
  "meanOf c u =
     (if sumRow c u = 0 then Finite 0
      else float64_of_uint (sumRow c u) / float64_of_nat (lenRow c u))"

definition varOf :: "concurrences \<Rightarrow> nat \<Rightarrow> float64" where
  "varOf c u =
     (if sumRow c u = 0 then Finite 0
      else (\<Sum>v\<in>dom (the (c u)).
              (float64_of_uint (the (the (c u) v)) - meanOf c u)
               * (float64_of_uint (the (the (c u) v)) - meanOf c u))
           / float64_of_nat (lenRow c u))"

definition SetConcurrences :: "nat \<Rightarrow> concurrences \<Rightarrow> error + ConcurrenceModel" where
  "SetConcurrences k concurrence =
     (case verifyConcurrences k concurrence of
        Inl e \<Rightarrow> Inl e
      | Inr _ \<Rightarrow>
          Inr \<lparr>cm_n = k,
               sumConcurrences = sum_list (getSumConcurrencesOf k concurrence),
               sumConcurrencesOf = getSumConcurrencesOf k concurrence,
               meanConcurrenceOf = map (meanOf concurrence) [0..<k],
               varConcurrenceOf = map (varOf concurrence) [0..<k],
               concurrences = concurrence\<rparr>)"

definition GetN :: "ConcurrenceModel \<Rightarrow> nat" where
  "GetN cm = cm_n cm"

definition GetConcurrencesOf :: "ConcurrenceModel \<Rightarrow> nat \<Rightarrow> (nat \<rightharpoonup> uint)" where
  "GetConcurrencesOf cm i =
     (case concurrences cm i of Some weightsOfI \<Rightarrow> weightsOfI | None \<Rightarrow> Map.empty)"

definition GetConcurrence :: "ConcurrenceModel \<Rightarrow> nat \<Rightarrow> nat \<Rightarrow> uint" where
  "GetConcurrence cm i j =
     (case GetConcurrencesOf cm i j of Some weightIJ \<Rightarrow> weightIJ | None \<Rightarrow> 0)"

text \<open>
  \<open>GetCompleteCommunities\<close>, step 1: the groups are copied in order while the points seen
  so far are marked.  Go visits the points of one group in an unspecified order, so for a
  group holding both a point \<open>\<ge> n\<close> and an already marked point the source does not fix
  which of the two fatal messages is printed; the model reports the first.
\<close>

fun copyCommunities :: "nat \<Rightarrow> nat set \<Rightarrow> community list \<Rightarrow> error + (community list \<times> nat set)" where
  "copyCommunities k pointMarkers [] = Inr ([], pointMarkers)"
| "copyCommunities k pointMarkers (community # rest) =
     (if \<exists>point\<in>community. point \<ge> k then Inl PointGeN
      else if \<exists>point\<in>community. point \<in> pointMarkers then Inl PointInMultipleCommunities
      else (case copyCommunities k (pointMarkers \<union> community) rest of
              Inl e \<Rightarrow> Inl e
            | Inr (result, markers) \<Rightarrow> Inr (community # result, markers)))"

definition GetCompleteCommunities :: "ConcurrenceModel \<Rightarrow> community list \<Rightarrow> error + community list" where
  "GetCompleteCommunities cm communities =
     (case copyCommunities (cm_n cm) {} communities of
        Inl e \<Rightarrow> Inl e
      | Inr (result, pointMarkers) \<Rightarrow>
          Inr (result @ map (\<lambda>i. {i}) (filter (\<lambda>i. i \<notin> pointMarkers) [0..<cm_n cm])))"

text \<open>
  \<open>Aggregate\<close>.  For \<open>i1 < i2\<close> the inner loops add the weight of every stored entry
  \<open>(pt1, pt2)\<close> with \<open>pt1\<close> in group \<open>i1\<close> and \<open>pt2\<close> in group \<open>i2\<close>; a non-zero sum is
  stored at \<open>(i1, i2)\<close> and at \<open>(i2, i1)\<close>.  Every group index gets a row, possibly empty.
\<close>

definition weightI1I2 :: "ConcurrenceModel \<Rightarrow> community \<Rightarrow> community \<Rightarrow> uint" where
  "weightI1I2 cm c1 c2 =
     (\<Sum>pt1\<in>c1. case concurrences cm pt1 of
                   None \<Rightarrow> 0
                 | Some weightsOfPt1 \<Rightarrow>
                     (\<Sum>pt2\<in>c2. case weightsOfPt1 pt2 of None \<Rightarrow> 0 | Some w \<Rightarrow> w))"

definition newConcurrences :: "ConcurrenceModel \<Rightarrow> community list \<Rightarrow> concurrences" where
  "newConcurrences cm communities =
     (\<lambda>i. if i < length communities
          then Some (\<lambda>j. if j < length communities \<and> j \<noteq> i
                            \<and> weightI1I2 cm (communities ! min i j) (communities ! max i j) \<noteq> 0
                         then Some (weightI1I2 cm (communities ! min i j) (communities ! max i j))
                         else None)
          else None)"

definition Aggregate :: "ConcurrenceModel \<Rightarrow> community list \<Rightarrow> error + ConcurrenceModel" where
  "Aggregate cm communities =
     SetConcurrences (length communities) (newConcurrences cm communities)"


section \<open>Similarity induction\<close>

text \<open>
  A similarity matrix is a map of rows.  Reading a slice beyond its length panics; the
  slices of a model built by \<open>SetConcurrences\<close> have length \<open>n\<close>, but the record type
  does not say so, and each transform first checks the indices its loops will read.
\<close>

type_synonym simMat = "nat \<rightharpoonup> (nat \<rightharpoonup> float64)"

definition plainRow :: "ConcurrenceModel \<Rightarrow> nat \<Rightarrow> (nat \<rightharpoonup> float64)" where
  "plainRow cm u =
     (\<lambda>v. case GetConcurrencesOf cm u v of
            Some weightUV \<Rightarrow>
              Some (float64_of_uint weightUV
                    * (Finite (1/2) / float64_of_uint (sumConcurrencesOf cm ! u)
                       + Finite (1/2) / float64_of_uint (sumConcurrencesOf cm ! v)))
          | None \<Rightarrow> if v = u then Some (Finite 1) else None)"

definition sumIndexPanics :: "ConcurrenceModel \<Rightarrow> bool" where
  "sumIndexPanics cm =
     (\<exists>u\<in>set [0..<cm_n cm].
        dom (GetConcurrencesOf cm u) \<noteq> {}
        \<and> (length (sumConcurrencesOf cm) \<le> u
           \<or> (\<exists>v\<in>dom (GetConcurrencesOf cm u). length (sumConcurrencesOf cm) \<le> v)))"

definition InduceSimilarities :: "ConcurrenceModel \<Rightarrow> error + simMat" where
  "InduceSimilarities cm =
     (if sumIndexPanics cm then Inl IndexOutOfRange
      else Inr (\<lambda>u. if u < cm_n cm \<and> dom (GetConcurrencesOf cm u) \<noteq> {}
                     then Some (plainRow cm u) else None))"

text \<open>
  \<open>math.Erf\<close> belongs to Go's library, not to this program: the two transforms that call
  it take it as the parameter \<open>erf\<close>.
\<close>

definition normalizedWeight :: "(float64 \<Rightarrow> float64) \<Rightarrow> ConcurrenceModel \<Rightarrow> uint \<Rightarrow> nat \<Rightarrow> float64" where
  "normalizedWeight erf cm weight u =
     erf ((float64_of_uint weight - meanConcurrenceOf cm ! u) / varConcurrenceOf cm ! u)"

definition momentIndexPanics :: "ConcurrenceModel \<Rightarrow> bool" where
  "momentIndexPanics cm =
     (\<exists>u\<in>set [0..<cm_n cm].
        dom (GetConcurrencesOf cm u) \<noteq> {}
        \<and> (min (length (meanConcurrenceOf cm)) (length (varConcurrenceOf cm)) \<le> u
           \<or> (\<exists>v\<in>dom (GetConcurrencesOf cm u).
                 min (length (meanConcurrenceOf cm)) (length (varConcurrenceOf cm)) \<le> v)))"

definition InduceNormalizedSimilarities :: "(float64 \<Rightarrow> float64) \<Rightarrow> ConcurrenceModel \<Rightarrow> error + simMat" where
  "InduceNormalizedSimilarities erf cm =
     (if momentIndexPanics cm then Inl IndexOutOfRange
      else Inr (\<lambda>u. if u < cm_n cm
                     then Some (\<lambda>v. case GetConcurrencesOf cm u v of
                                       Some weightUV \<Rightarrow>
                                         Some (Finite (1/2)
                                               * (normalizedWeight erf cm weightUV u
                                                  + normalizedWeight erf cm weightUV v))
                                     | None \<Rightarrow> if v = u then Some (Finite 1) else None)
                     else None))"

definition numInIntersection :: "(nat \<rightharpoonup> uint) \<Rightarrow> (nat \<rightharpoonup> uint) \<Rightarrow> nat" where
  "numInIntersection weightsOfU weightsOfV =
     (if card (dom weightsOfU) < card (dom weightsOfV)
      then card (keep (\<lambda>neighborU. neighborU \<in> dom weightsOfV) (dom weightsOfU))
      else card (keep (\<lambda>neighborV. neighborV \<in> dom weightsOfU) (dom weightsOfV)))"

definition jaccardRow :: "ConcurrenceModel \<Rightarrow> nat \<Rightarrow> (nat \<rightharpoonup> float64)" where
  "jaccardRow cm u =
     (\<lambda>v. if v \<in> dom (GetConcurrencesOf cm u)
              \<and> numInIntersection (GetConcurrencesOf cm u) (GetConcurrencesOf cm v) \<noteq> 0
           then Some (float64_of_nat
                        (numInIntersection (GetConcurrencesOf cm u) (GetConcurrencesOf cm v))
                      / float64_of_nat
                          (card (dom (GetConcurrencesOf cm u)) + card (dom (GetConcurrencesOf cm v))
                           - numInIntersection (GetConcurrencesOf cm u) (GetConcurrencesOf cm v)))
           else if v = u then Some (Finite 1) else None)"

definition InduceJaccardSimilarities :: "ConcurrenceModel \<Rightarrow> simMat" where
  "InduceJaccardSimilarities cm = (\<lambda>u. if u < cm_n cm then Some (jaccardRow cm u) else None)"

definition sumWeightInIntersection ::
    "(nat \<rightharpoonup> uint) \<Rightarrow> (nat \<rightharpoonup> uint) \<Rightarrow> float64 \<Rightarrow> float64 \<Rightarrow> float64" where
  "sumWeightInIntersection weightsOfU weightsOfV cu cv =
     (if card (dom weightsOfU) < card (dom weightsOfV)
      then (\<Sum>neighborU\<in>keep (\<lambda>x. x \<in> dom weightsOfV) (dom weightsOfU).
              float64_of_uint (the (weightsOfU neighborU) * the (weightsOfV neighborU)) * cu * cv)
      else (\<Sum>neighborV\<in>keep (\<lambda>x. x \<in> dom weightsOfU) (dom weightsOfV).
              float64_of_uint (the (weightsOfU neighborV) * the (weightsOfV neighborV)) * cu * cv))"

definition weightedJaccardRow :: "ConcurrenceModel \<Rightarrow> nat \<Rightarrow> (nat \<rightharpoonup> float64)" where
  "weightedJaccardRow cm u =
     (\<lambda>v. if v \<in> dom (GetConcurrencesOf cm u)
           then Some (sumWeightInIntersection (GetConcurrencesOf cm u) (GetConcurrencesOf cm v)
                        (Finite 1 / float64_of_uint (sumConcurrencesOf cm ! u))
                        (Finite 1 / float64_of_uint (sumConcurrencesOf cm ! v)))
           else if v = u then Some (Finite 1) else None)"

definition InduceWeightedJaccardSimilarities :: "ConcurrenceModel \<Rightarrow> error + simMat" where
  "InduceWeightedJaccardSimilarities cm =
     (if sumIndexPanics cm then Inl IndexOutOfRange
      else Inr (\<lambda>u. if u < cm_n cm \<and> dom (GetConcurrencesOf cm u) \<noteq> {}
                     then Some (weightedJaccardRow cm u) else None))"

definition sumNormalizedWeightsOf :: "(float64 \<Rightarrow> float64) \<Rightarrow> ConcurrenceModel \<Rightarrow> nat \<Rightarrow> float64" where
  "sumNormalizedWeightsOf erf cm u =
     (\<Sum>x\<in>dom (GetConcurrencesOf cm u).
        normalizedWeight erf cm (the (GetConcurrencesOf cm u x)) u)"

definition sumNormalizedInIntersection ::
    "(float64 \<Rightarrow> float64) \<Rightarrow> ConcurrenceModel \<Rightarrow> nat \<Rightarrow> nat \<Rightarrow> float64" where
  "sumNormalizedInIntersection erf cm u v =
     (\<Sum>x\<in>(if card (dom (GetConcurrencesOf cm u)) < card (dom (GetConcurrencesOf cm v))
             then keep (\<lambda>x. x \<in> dom (GetConcurrencesOf cm v)) (dom (GetConcurrencesOf cm u))
             else keep (\<lambda>x. x \<in> dom (GetConcurrencesOf cm u)) (dom (GetConcurrencesOf cm v))).
        (Finite 1 / sumNormalizedWeightsOf erf cm u
           * normalizedWeight erf cm (the (GetConcurrencesOf cm u x)) u)
        * (Finite 1 / sumNormalizedWeightsOf erf cm v
           * normalizedWeight erf cm (the (GetConcurrencesOf cm v x)) v))"

text \<open>
  The last transform keeps its normalised sums in a slice of length \<open>n\<close>, filled in a
  first loop that reads the moments of every node with a neighbour; the second loop reads
  that slice at every neighbour \<open>v\<close>, and the moments of \<open>v\<close> only when \<open>v\<close> shares a
  neighbour with \<open>u\<close>, so that \<open>v\<close> has a neighbour itself.
\<close>

definition InduceNormalizedJaccardSimilarities ::
    "(float64 \<Rightarrow> float64) \<Rightarrow> ConcurrenceModel \<Rightarrow> error + simMat" where
  "InduceNormalizedJaccardSimilarities erf cm =
     (if (\<exists>u\<in>set [0..<cm_n cm].
            dom (GetConcurrencesOf cm u) \<noteq> {}
            \<and> min (length (meanConcurrenceOf cm)) (length (varConcurrenceOf cm)) \<le> u)
         \<or> (\<exists>u\<in>set [0..<cm_n cm]. \<exists>v\<in>dom (GetConcurrencesOf cm u). cm_n cm \<le> v)
      then Inl IndexOutOfRange
      else Inr (\<lambda>u. if u < cm_n cm \<and> dom (GetConcurrencesOf cm u) \<noteq> {}
                     then Some (\<lambda>v. if v \<in> dom (GetConcurrencesOf cm u)
                                     then Some (sumNormalizedInIntersection erf cm u v)
                                     else if v = u then Some (Finite 1) else None)
                     else None))"


section \<open>Quality models\<close>

text \<open>
  The interface \<open>QualityModel\<close> has two implementations, each a resolution \<open>r\<close> and an
  embedded concurrence model.
\<close>

datatype QualityModel = Modularity float64 ConcurrenceModel | CPM float64 ConcurrenceModel

fun qm_r :: "QualityModel \<Rightarrow> float64" where
  "qm_r (Modularity r cm) = r"
| "qm_r (CPM r cm) = r"

fun qm_cm :: "QualityModel \<Rightarrow> ConcurrenceModel" where
  "qm_cm (Modularity r cm) = cm"
| "qm_cm (CPM r cm) = cm"

definition NewModularity :: "float64 \<Rightarrow> QualityModel" where
  "NewModularity r = Modularity r NewConcurrenceModel"

definition NewCPM :: "float64 \<Rightarrow> QualityModel" where
  "NewCPM r = CPM r NewConcurrenceModel"

fun qm_Aggregate :: "QualityModel \<Rightarrow> community list \<Rightarrow> error + QualityModel" where
  "qm_Aggregate (Modularity r cm) communities =
     (case Aggregate cm communities of Inl e \<Rightarrow> Inl e | Inr newCM \<Rightarrow> Inr (Modularity r newCM))"
| "qm_Aggregate (CPM r cm) communities =
     (case Aggregate cm communities of Inl e \<Rightarrow> Inl e | Inr newCM \<Rightarrow> Inr (CPM r newCM))"

definition oneOverM :: "ConcurrenceModel \<Rightarrow> float64" where
  "oneOverM cm = Finite 1 / float64_of_uint (sumConcurrences cm)"

definition rOverM :: "float64 \<Rightarrow> ConcurrenceModel \<Rightarrow> float64" where
  "rOverM r cm = r * oneOverM cm"

definition k_of :: "ConcurrenceModel \<Rightarrow> nat \<Rightarrow> float64" where
  "k_of cm i = float64_of_uint (sumConcurrencesOf cm ! i)"

definition weightOrZero :: "(nat \<rightharpoonup> uint) \<Rightarrow> nat \<Rightarrow> uint" where
  "weightOrZero weightsOfU j = (case weightsOfU j of Some weightUJ \<Rightarrow> weightUJ | None \<Rightarrow> 0)"

text \<open>
  \<open>Quality\<close> and \<open>DeltaQuality\<close> of the two models.  \<open>Modularity\<close> reads
  \<open>sumConcurrencesOf\<close> at every member of a group it visits, \<open>DeltaQuality\<close> reads the
  list of groups at \<open>newCu\<close> and \<open>oldCu\<close>; a read out of range panics.
\<close>

definition Modularity_Quality :: "float64 \<Rightarrow> ConcurrenceModel \<Rightarrow> community list \<Rightarrow> error + float64" where
  "Modularity_Quality r cm communities =
     (if \<exists>c\<in>set communities. \<exists>i\<in>c. length (sumConcurrencesOf cm) \<le> i then Inl IndexOutOfRange
      else Inr ((\<Sum>c\<leftarrow>communities. \<Sum>i\<in>c. \<Sum>j\<in>c.
                   float64_of_uint (GetConcurrence cm i j) - rOverM r cm * k_of cm i * k_of cm j)
                * oneOverM cm))"

definition Modularity_DeltaQuality ::
    "float64 \<Rightarrow> ConcurrenceModel \<Rightarrow> community list \<Rightarrow> nat \<Rightarrow> nat \<Rightarrow> nat \<Rightarrow> error + float64" where
  "Modularity_DeltaQuality r cm communities u oldCu newCu =
     (if oldCu = newCu then Inr (Finite 0)
      else if length (sumConcurrencesOf cm) \<le> u then Inl IndexOutOfRange
      else if length communities \<le> newCu then Inl IndexOutOfRange
      else if \<exists>j\<in>communities ! newCu. length (sumConcurrencesOf cm) \<le> j then Inl IndexOutOfRange
      else if length communities \<le> oldCu then Inl IndexOutOfRange
      else if \<exists>j\<in>communities ! oldCu. j \<noteq> u \<and> length (sumConcurrencesOf cm) \<le> j
        then Inl IndexOutOfRange
      else Inr (((\<Sum>j\<in>communities ! newCu.
                    float64_of_uint (weightOrZero (GetConcurrencesOf cm u) j)
                    - rOverM r cm * k_of cm u * k_of cm j)
                 + (\<Sum>j\<in>communities ! oldCu - {u}.
                      - (float64_of_uint (weightOrZero (GetConcurrencesOf cm u) j)
                         - rOverM r cm * k_of cm u * k_of cm j)))
                * oneOverM cm))"

definition sumWeightsOfC :: "ConcurrenceModel \<Rightarrow> community \<Rightarrow> float64" where
  "sumWeightsOfC cm c =
     (\<Sum>i\<in>c. \<Sum>j\<in>c. case GetConcurrencesOf cm i j of
                          Some weightIJ \<Rightarrow> float64_of_uint weightIJ
                        | None \<Rightarrow> Finite 0)"

definition CPM_Quality :: "float64 \<Rightarrow> ConcurrenceModel \<Rightarrow> community list \<Rightarrow> error + float64" where
  "CPM_Quality r cm communities =
     Inr (\<Sum>c\<leftarrow>communities.
            sumWeightsOfC cm c - r * float64_of_nat (card c) * float64_of_nat (card c))"

definition CPM_DeltaQuality ::
    "float64 \<Rightarrow> ConcurrenceModel \<Rightarrow> community list \<Rightarrow> nat \<Rightarrow> nat \<Rightarrow> nat \<Rightarrow> error + float64" where
  "CPM_DeltaQuality r cm communities u oldCu newCu =
     (if oldCu = newCu then Inr (Finite 0)
      else if length communities \<le> oldCu then Inl IndexOutOfRange
      else if length communities \<le> newCu then Inl IndexOutOfRange
      else Inr ((\<Sum>j\<in>communities ! oldCu - {u}.
                   case GetConcurrencesOf cm u j of
                     Some weightUJ \<Rightarrow> - float64_of_uint weightUJ
                   | None \<Rightarrow> Finite 0)
                + (\<Sum>j\<in>communities ! newCu.
                     case GetConcurrencesOf cm u j of
                       Some weightUJ \<Rightarrow> float64_of_uint weightUJ
                     | None \<Rightarrow> Finite 0)
                - Finite 2 * r
                  * (float64_of_nat (card (communities ! newCu))
                     - float64_of_nat (card (communities ! oldCu)) + Finite 1)))"

fun Quality :: "QualityModel \<Rightarrow> community list \<Rightarrow> error + float64" where
  "Quality (Modularity r cm) communities = Modularity_Quality r cm communities"
| "Quality (CPM r cm) communities = CPM_Quality r cm communities"

fun DeltaQuality :: "QualityModel \<Rightarrow> community list \<Rightarrow> nat \<Rightarrow> nat \<Rightarrow> nat \<Rightarrow> error + float64" where
  "DeltaQuality (Modularity r cm) communities u oldCu newCu =
     Modularity_DeltaQuality r cm communities u oldCu newCu"
| "DeltaQuality (CPM r cm) communities u oldCu newCu =
     CPM_DeltaQuality r cm communities u oldCu newCu"


section \<open>Density-based clustering\<close>

definition density :: "(nat \<rightharpoonup> float64) \<Rightarrow> float64 \<Rightarrow> nat" where
  "density rowPt eps = card (keep (\<lambda>v. Finite 1 \<le> the (rowPt v) + eps) (dom rowPt))"

definition getCorePoints :: "simMat \<Rightarrow> float64 \<Rightarrow> nat \<Rightarrow> error + (nat \<rightharpoonup> nat)" where
  "getCorePoints simMat eps minPts =
     (if \<exists>pt\<in>set [0..<card (dom simMat)]. simMat pt = None then Inl InvalidSimilarityMatrix
      else Inr (\<lambda>pt. if pt < card (dom simMat) \<and> minPts \<le> density (the (simMat pt)) eps
                      then Some (density (the (simMat pt)) eps) else None))"

definition neighborhood :: "simMat \<Rightarrow> float64 \<Rightarrow> nat \<Rightarrow> nat set" where
  "neighborhood simMat eps pt =
     keep (\<lambda>neighbor. neighbor \<noteq> pt \<and> Finite 1 \<le> the (the (simMat pt) neighbor) + eps)
       (dom (the (simMat pt)))"

definition getNeighbors ::
    "simMat \<Rightarrow> float64 \<Rightarrow> nat \<Rightarrow> (nat \<rightharpoonup> nat) \<Rightarrow> error + ((nat \<rightharpoonup> nat set) \<times> (nat \<rightharpoonup> nat set))" where
  "getNeighbors simMat eps minPts corePts =
     (if \<exists>pt\<in>dom corePts. simMat pt = None then Inl InvalidSimilarityMatrix
      else Inr (\<lambda>pt. if pt \<in> dom corePts
                      then Some (keep (\<lambda>neighbor. neighbor \<in> dom corePts) (neighborhood simMat eps pt))
                      else None,
                \<lambda>pt. if pt \<in> dom corePts
                      then Some (keep (\<lambda>neighbor. neighbor \<notin> dom corePts) (neighborhood simMat eps pt))
                      else None))"

text \<open>
  Step (5.2) of \<open>DBScan\<close> visits the core points in the unspecified order of a Go map and,
  comparing strictly, keeps the first unassigned one of greatest density, provided that
  density is positive; the sentinel \<open>n\<close> stands for "none".  The model visits them by
  ascending id.
\<close>

definition centerCandidates :: "(nat \<rightharpoonup> nat) \<Rightarrow> (nat \<rightharpoonup> nat) \<Rightarrow> nat set" where
  "centerCandidates corePts communityIDs =
     keep (\<lambda>pt. pt \<notin> dom communityIDs \<and> 0 < the (corePts pt)) (dom corePts)"

definition pickCenter :: "nat \<Rightarrow> (nat \<rightharpoonup> nat) \<Rightarrow> (nat \<rightharpoonup> nat) \<Rightarrow> nat" where
  "pickCenter k corePts communityIDs =
     (if centerCandidates corePts communityIDs = {} then k
      else Min (keep (\<lambda>pt. \<forall>q\<in>centerCandidates corePts communityIDs.
                                the (corePts q) \<le> the (corePts pt))
                  (centerCandidates corePts communityIDs)))"

definition neighborsOfBoundary :: "(nat \<rightharpoonup> nat set) \<Rightarrow> nat set \<Rightarrow> nat set" where
  "neighborsOfBoundary rows boundary =
     (\<Union>bpt\<in>boundary. case rows bpt of None \<Rightarrow> {} | Some row \<Rightarrow> row)"

definition assignTo :: "nat set \<Rightarrow> nat \<Rightarrow> (nat \<rightharpoonup> nat) \<Rightarrow> (nat \<rightharpoonup> nat)" where
  "assignTo pts c communityIDs = (\<lambda>pt. if pt \<in> pts then Some c else communityIDs pt)"

text \<open>
  Step (5.5): one round takes every neighbour, core or not, of a boundary point that has
  no community yet into the new community; the core ones form the next boundary.  A point
  is either core or not, and every boundary point has a community already, so the result
  of a round does not depend on the order in which the boundary is visited.
\<close>

partial_function (option) expandBoundary ::
    "(nat \<rightharpoonup> nat set) \<Rightarrow> (nat \<rightharpoonup> nat set) \<Rightarrow> nat \<Rightarrow> nat set \<Rightarrow> community \<Rightarrow> (nat \<rightharpoonup> nat)
     \<Rightarrow> (community \<times> (nat \<rightharpoonup> nat)) option" where
  "expandBoundary coreNeighbors noncoreNeighbors c boundary newCommunity communityIDs =
     (if boundary = {} then Some (newCommunity, communityIDs)
      else expandBoundary coreNeighbors noncoreNeighbors c
             (neighborsOfBoundary coreNeighbors boundary - dom communityIDs)
             (newCommunity
                \<union> (neighborsOfBoundary noncoreNeighbors boundary - dom communityIDs)
                \<union> (neighborsOfBoundary coreNeighbors boundary - dom communityIDs))
             (assignTo ((neighborsOfBoundary noncoreNeighbors boundary - dom communityIDs)
                        \<union> (neighborsOfBoundary coreNeighbors boundary - dom communityIDs))
                c communityIDs))"

partial_function (option) clusterLoop ::
    "nat \<Rightarrow> (nat \<rightharpoonup> nat) \<Rightarrow> (nat \<rightharpoonup> nat set) \<Rightarrow> (nat \<rightharpoonup> nat set)
     \<Rightarrow> community list \<Rightarrow> (nat \<rightharpoonup> nat) \<Rightarrow> (community list \<times> (nat \<rightharpoonup> nat)) option" where
  "clusterLoop k corePts coreNeighbors noncoreNeighbors communities communityIDs =
     (if pickCenter k corePts communityIDs = k then Some (communities, communityIDs)
      else Option.bind
             (expandBoundary coreNeighbors noncoreNeighbors (length communities)
                {pickCenter k corePts communityIDs} {pickCenter k corePts communityIDs}
                (communityIDs(pickCenter k corePts communityIDs \<mapsto> length communities)))
             (\<lambda>grown. clusterLoop k corePts coreNeighbors noncoreNeighbors
                        (communities @ [fst grown]) (snd grown)))"

text \<open>The \<open>switch\<close> on \<open>simType\<close>; any other value leaves the matrix empty.\<close>

definition induce :: "(float64 \<Rightarrow> float64) \<Rightarrow> ConcurrenceModel \<Rightarrow> int \<Rightarrow> error + simMat" where
  "induce erf cm simType =
     (if simType = 0 then InduceSimilarities cm
      else if simType = 1 then InduceNormalizedSimilarities erf cm
      else if simType = 2 then Inr (InduceJaccardSimilarities cm)
      else if simType = 3 then InduceWeightedJaccardSimilarities cm
      else if simType = 4 then InduceNormalizedJaccardSimilarities erf cm
      else Inr Map.empty)"

text \<open>
  Step 6 appends one singleton per row of the similarity matrix whose point has no
  community, here by ascending id.  The result is \<open>None\<close> if a loop does not end.
\<close>

definition DBScan ::
    "(float64 \<Rightarrow> float64) \<Rightarrow> ConcurrenceModel \<Rightarrow> float64 \<Rightarrow> nat \<Rightarrow> int
     \<Rightarrow> (error + community list) option" where
  "DBScan erf cm eps minPts simType =
     (case induce erf cm simType of
        Inl e \<Rightarrow> Some (Inl e)
      | Inr simMat \<Rightarrow>
          (case getCorePoints simMat eps minPts of
             Inl e \<Rightarrow> Some (Inl e)
           | Inr corePts \<Rightarrow>
               (case getNeighbors simMat eps minPts corePts of
                  Inl e \<Rightarrow> Some (Inl e)
                | Inr (coreNeighbors, noncoreNeighbors) \<Rightarrow>
                    map_option
                      (\<lambda>(communities, communityIDs).
                         Inr (communities
                              @ map (\<lambda>pt. {pt})
                                  (sorted_list_of_set
                                     (keep (\<lambda>pt. pt \<notin> dom communityIDs) (dom simMat)))))
                      (clusterLoop (GetN cm) corePts coreNeighbors noncoreNeighbors
                         [] Map.empty))))"

section \<open>Agglomerative clustering\<close>

text \<open>
  Step 1 of \<open>mergeClusters\<close> scans the rows in order and each row in the unspecified order
  of a Go map (here: ascending keys), keeping the first entry strictly below everything
  seen so far, starting from \<open>1.0\<close> at \<open>(0, 0)\<close>.
\<close>

definition scanRow :: "nat \<Rightarrow> (nat \<rightharpoonup> float64) \<Rightarrow> float64 \<times> nat \<times> nat \<Rightarrow> float64 \<times> nat \<times> nat" where
  "scanRow i row acc =
     foldl (\<lambda>(minDist, iMinDist, jMinDist) j.
              if the (row j) < minDist then (the (row j), i, j)
              else (minDist, iMinDist, jMinDist))
       acc (sorted_list_of_set (dom row))"

definition findMinDist :: "(nat \<rightharpoonup> float64) list \<Rightarrow> float64 \<times> nat \<times> nat" where
  "findMinDist distMat =
     foldl (\<lambda>acc (i, row). scanRow i row acc) (Finite 1, 0, 0)
       (zip [0..<length distMat] distMat)"

definition mergeCommunities :: "nat \<Rightarrow> nat \<Rightarrow> community list \<Rightarrow> community list" where
  "mergeCommunities iMinDist jMinDist communities =
     map (\<lambda>k. if k < iMinDist then communities ! k
              else if k = iMinDist then communities ! iMinDist \<union> communities ! jMinDist
              else if k < jMinDist then communities ! k
              else communities ! (k + 1))
       [0..<length communities - 1]"

definition mergeRow :: "nat \<Rightarrow> nat \<Rightarrow> (nat \<rightharpoonup> float64) \<Rightarrow> (nat \<rightharpoonup> float64)" where
  "mergeRow iMinDist jMinDist oldRow =
     foldl (\<lambda>newRow l.
              if l < iMinDist then newRow(l \<mapsto> the (oldRow l))
              else if l = iMinDist
                then (case oldRow jMinDist of
                        Some distJ \<Rightarrow> newRow(l \<mapsto> math_Min (the (oldRow l)) distJ)
                      | None \<Rightarrow> newRow(l \<mapsto> the (oldRow l)))
              else if l < jMinDist then newRow(l \<mapsto> the (oldRow l))
              else if jMinDist < l then newRow(l - 1 \<mapsto> the (oldRow l))
              else newRow)
       Map.empty (sorted_list_of_set (dom oldRow))"

definition oldK :: "nat \<Rightarrow> nat \<Rightarrow> nat" where
  "oldK jMinDist k = (if jMinDist \<le> k then k + 1 else k)"

definition mergeDistMat ::
    "nat \<Rightarrow> nat \<Rightarrow> (nat \<rightharpoonup> float64) list \<Rightarrow> nat \<Rightarrow> (nat \<rightharpoonup> float64) list" where
  "mergeDistMat iMinDist jMinDist distMat newLen =
     map (\<lambda>k. mergeRow iMinDist jMinDist (distMat ! oldK jMinDist k)) [0..<newLen]"

text \<open>
  \<open>make\<close> panics on the length \<open>-1\<close> that an empty list of clusters gives; reading the
  clusters at \<open>jMinDist\<close>, or the matrix at a row it does not have, panics as well.
\<close>

function mergeClusters ::
    "(nat \<rightharpoonup> float64) list \<Rightarrow> community list \<Rightarrow> float64 \<Rightarrow> error + community list" where
  "mergeClusters distMat communities eps =
     (if eps < fst (findMinDist distMat) then Inr communities
      else if length communities = 0 then Inl MakesliceLenOutOfRange
      else if min (fst (snd (findMinDist distMat))) (snd (snd (findMinDist distMat)))
                < length communities - 1
              \<and> length communities
                  \<le> max (fst (snd (findMinDist distMat))) (snd (snd (findMinDist distMat)))
        then Inl IndexOutOfRange
      else if \<exists>k\<in>set [0..<length communities - 1].
                length distMat
                  \<le> oldK (max (fst (snd (findMinDist distMat))) (snd (snd (findMinDist distMat)))) k
        then Inl IndexOutOfRange
      else mergeClusters
             (mergeDistMat
                (min (fst (snd (findMinDist distMat))) (snd (snd (findMinDist distMat))))
                (max (fst (snd (findMinDist distMat))) (snd (snd (findMinDist distMat))))
                distMat (length communities - 1))
             (mergeCommunities
                (min (fst (snd (findMinDist distMat))) (snd (snd (findMinDist distMat))))
                (max (fst (snd (findMinDist distMat))) (snd (snd (findMinDist distMat))))
                communities)
             eps)"
  by pat_completeness auto
termination
  by (relation "measure (\<lambda>(distMat, communities, eps). length communities)")
     (auto simp: mergeCommunities_def)

declare mergeClusters.simps [simp del]


section \<open>The local-moving optimizers\<close>

definition flattenCommunities :: "community list \<Rightarrow> community list \<Rightarrow> error + community list" where
  "flattenCommunities aggCommunities communities =
     (if \<exists>aggC\<in>set aggCommunities. \<exists>idxC\<in>aggC. length communities \<le> idxC
      then Inl IndexOutOfRange
      else Inr (map (\<lambda>aggC. \<Union>idxC\<in>aggC. communities ! idxC) aggCommunities))"

record options =
  useSeqSelector :: bool
  multiResolution :: bool
  shuffle :: bool

definition parseOption :: "options \<Rightarrow> string \<Rightarrow> options" where
  "parseOption os opt =
     (if opt = ''priority selector'' then os\<lparr>useSeqSelector := False\<rparr>
      else if opt = ''sequential selector'' then os\<lparr>useSeqSelector := True\<rparr>
      else if opt = ''single resolution'' then os\<lparr>multiResolution := False\<rparr>
      else if opt = ''multiple resolution'' then os\<lparr>multiResolution := True\<rparr>
      else if opt = ''shuffle'' then os\<lparr>shuffle := True\<rparr>
      else if opt = ''no shuffle'' then os\<lparr>shuffle := False\<rparr>
      else os)"

definition parseOptions :: "string list \<Rightarrow> options" where
  "parseOptions opts =
     foldl parseOption \<lparr>useSeqSelector = True, multiResolution = True, shuffle = False\<rparr> opts"

text \<open>Step 3: the groups are visited in order, so a later group overwrites an earlier one.\<close>

definition initCommunityIDs :: "nat \<Rightarrow> community list \<Rightarrow> nat list" where
  "initCommunityIDs k result =
     map (\<lambda>point. foldl (\<lambda>cid (communityID, community).
                           if point \<in> community then communityID else cid)
                     0 (zip [0..<length result] result))
       [0..<k]"

text \<open>The loop over \<open>newCu\<close> of the sequential selector, for one node \<open>u\<close>.\<close>

fun scanNewCu ::
    "QualityModel \<Rightarrow> community list \<Rightarrow> nat \<Rightarrow> nat \<Rightarrow> nat list \<Rightarrow> float64 \<times> nat
     \<Rightarrow> error + (float64 \<times> nat)" where
  "scanNewCu qm result u oldCu [] best = Inr best"
| "scanNewCu qm result u oldCu (newCu # rest) (bestDeltaQuality, bestNewCu) =
     (case DeltaQuality qm result u oldCu newCu of
        Inl e \<Rightarrow> Inl e
      | Inr deltaQuality \<Rightarrow>
          scanNewCu qm result u oldCu rest
            (if bestDeltaQuality < deltaQuality then (deltaQuality, newCu)
             else (bestDeltaQuality, bestNewCu)))"

definition moveNode :: "community list \<Rightarrow> nat \<Rightarrow> nat \<Rightarrow> nat \<Rightarrow> community list" where
  "moveNode result u oldCu newCu =
     (result[oldCu := result ! oldCu - {u}])
       [newCu := insert u ((result[oldCu := result ! oldCu - {u}]) ! newCu)]"

text \<open>
  One sweep of the sequential selector over \<open>points\<close>; the state is the partition, the
  node-to-group slice and the flag \<open>done\<close>.
\<close>

fun seqSweep ::
    "QualityModel \<Rightarrow> nat \<Rightarrow> nat list \<Rightarrow> community list \<times> nat list \<times> bool
     \<Rightarrow> error + (community list \<times> nat list \<times> bool)" where
  "seqSweep qm m [] st = Inr st"
| "seqSweep qm m (u # points) (result, communityIDs, done) =
     (if length communityIDs \<le> u then Inl IndexOutOfRange
      else (case scanNewCu qm result u (communityIDs ! u) [0..<m] (Finite 0, communityIDs ! u) of
              Inl e \<Rightarrow> Inl e
            | Inr (bestDeltaQuality, bestNewCu) \<Rightarrow>
                if Finite 0 < bestDeltaQuality
                then seqSweep qm m points
                       (moveNode result u (communityIDs ! u) bestNewCu,
                        communityIDs[u := bestNewCu], False)
                else seqSweep qm m points (result, communityIDs, done)))"

text \<open>
  The priority selector scans every node and group for the single best move; its state is
  \<open>(bestDeltaQuality, bestU, oldCBestU, bestNewCu)\<close>.
\<close>

fun priorityScanNewCu ::
    "QualityModel \<Rightarrow> community list \<Rightarrow> nat \<Rightarrow> nat \<Rightarrow> nat list \<Rightarrow> float64 \<times> nat \<times> nat \<times> nat
     \<Rightarrow> error + (float64 \<times> nat \<times> nat \<times> nat)" where
  "priorityScanNewCu qm result u oldCu [] best = Inr best"
| "priorityScanNewCu qm result u oldCu (newCu # rest) (bestDeltaQuality, bestU, oldCBestU, bestNewCu) =
     (case DeltaQuality qm result u oldCu newCu of
        Inl e \<Rightarrow> Inl e
      | Inr deltaQuality \<Rightarrow>
          priorityScanNewCu qm result u oldCu rest
            (if bestDeltaQuality < deltaQuality then (deltaQuality, u, oldCu, newCu)
             else (bestDeltaQuality, bestU, oldCBestU, bestNewCu)))"

fun priorityScan ::
    "QualityModel \<Rightarrow> nat \<Rightarrow> community list \<Rightarrow> nat list \<Rightarrow> nat list \<Rightarrow> float64 \<times> nat \<times> nat \<times> nat
     \<Rightarrow> error + (float64 \<times> nat \<times> nat \<times> nat)" where
  "priorityScan qm m result communityIDs [] best = Inr best"
| "priorityScan qm m result communityIDs (u # points) best =
     (if length communityIDs \<le> u then Inl IndexOutOfRange
      else (case priorityScanNewCu qm result u (communityIDs ! u) [0..<m] best of
              Inl e \<Rightarrow> Inl e
            | Inr best' \<Rightarrow> priorityScan qm m result communityIDs points best'))"

text \<open>
  One pass of the priority selector: \<open>None\<close> when the loop is left, otherwise the state
  after the one move.  It reads \<open>communityIDs[0]\<close> before it scans.
\<close>

definition priorityStep ::
    "QualityModel \<Rightarrow> nat \<Rightarrow> nat list \<Rightarrow> community list \<Rightarrow> nat list
     \<Rightarrow> error + (community list \<times> nat list) option" where
  "priorityStep qm m points result communityIDs =
     (if length communityIDs = 0 then Inl IndexOutOfRange
      else (case priorityScan qm m result communityIDs points
                   (Finite 0, 0, communityIDs ! 0, communityIDs ! 0) of
              Inl e \<Rightarrow> Inl e
            | Inr (bestDeltaQuality, bestU, oldCBestU, bestNewCu) \<Rightarrow>
                if feq bestDeltaQuality (Finite 0) then Inr None
                else Inr (Some (moveNode result bestU oldCBestU bestNewCu,
                                communityIDs[bestU := bestNewCu]))))"

text \<open>
  \<open>rand.Shuffle\<close> draws from the process-wide random source.  The source is the parameter
  \<open>shuf\<close>: \<open>shuf k\<close> is the rearrangement made by the \<open>k\<close>-th call, and the number of
  calls made so far is threaded through the optimizer.
\<close>

definition accessOrder :: "options \<Rightarrow> (nat \<Rightarrow> nat list \<Rightarrow> nat list) \<Rightarrow> nat \<Rightarrow> nat \<Rightarrow> nat list" where
  "accessOrder os shuf calls k = (if shuffle os then shuf calls [0..<k] else [0..<k])"

definition nextCalls :: "options \<Rightarrow> nat \<Rightarrow> nat" where
  "nextCalls os calls = (if shuffle os then Suc calls else calls)"

text \<open>Step 4, the loop of sweeps.  \<open>None\<close>: the loop does not end.\<close>

partial_function (option) localMoving ::
    "QualityModel \<Rightarrow> options \<Rightarrow> (nat \<Rightarrow> nat list \<Rightarrow> nat list) \<Rightarrow> nat \<Rightarrow> nat
     \<Rightarrow> community list \<Rightarrow> nat list \<Rightarrow> nat
     \<Rightarrow> (error + (community list \<times> nat)) option" where
  "localMoving qm os shuf k m result communityIDs calls =
     (if useSeqSelector os
      then (case seqSweep qm m (accessOrder os shuf calls k) (result, communityIDs, True) of
              Inl e \<Rightarrow> Some (Inl e)
            | Inr swept \<Rightarrow>
                if snd (snd swept) then Some (Inr (fst swept, nextCalls os calls))
                else localMoving qm os shuf k m (fst swept) (fst (snd swept))
                       (nextCalls os calls))
      else (case priorityStep qm m (accessOrder os shuf calls k) result communityIDs of
              Inl e \<Rightarrow> Some (Inl e)
            | Inr None \<Rightarrow> Some (Inr (result, nextCalls os calls))
            | Inr (Some moved) \<Rightarrow>
                localMoving qm os shuf k m (fst moved) (snd moved) (nextCalls os calls)))"

text \<open>Step 5 keeps the groups of positive length.\<close>

definition removeEmpty :: "community list \<Rightarrow> community list" where
  "removeEmpty oldResult = filter (\<lambda>c. 0 < card c) oldResult"

text \<open>
  Steps 6.3 and 7, given the aggregated model of step 6.1 and what the recursive call of
  step 6.2 returned.
\<close>

definition reviseResult ::
    "QualityModel \<Rightarrow> community list \<Rightarrow> community list \<times> nat \<Rightarrow> error + (community list \<times> nat)" where
  "reviseResult newQM result agg =
     (if length (fst agg) < GetN (qm_cm newQM)
      then (case flattenCommunities (fst agg) result of
              Inl e \<Rightarrow> Inl e
            | Inr flat \<Rightarrow> Inr (flat, snd agg))
      else Inr (result, snd agg))"

text \<open>
  \<open>Louvain\<close> and \<open>Leiden\<close>: the same text in the source, each calling itself at step 6.2
  on \<open>qm\<close>, the partition of step 5 and its own options.  The result is \<open>None\<close> when the
  call does not return, \<open>Some (Inl e)\<close> when it ends in a fatal error or a panic, and
  otherwise the partition together with the number of shuffles made.
\<close>

partial_function (option) Louvain ::
    "(nat \<Rightarrow> nat list \<Rightarrow> nat list) \<Rightarrow> nat \<Rightarrow> QualityModel \<Rightarrow> community list \<Rightarrow> string list
     \<Rightarrow> (error + (community list \<times> nat)) option" where
  "Louvain shuf calls qm communities opts =
     (case GetCompleteCommunities (qm_cm qm) communities of
        Inl e \<Rightarrow> Some (Inl e)
      | Inr result \<Rightarrow>
          Option.bind
            (localMoving qm (parseOptions opts) shuf (GetN (qm_cm qm)) (length result)
               result (initCommunityIDs (GetN (qm_cm qm)) result) calls)
            (\<lambda>moved.
               case moved of
                 Inl e \<Rightarrow> Some (Inl e)
               | Inr (oldResult, calls') \<Rightarrow>
                   if multiResolution (parseOptions opts)
                   then (case qm_Aggregate qm (removeEmpty oldResult) of
                           Inl e \<Rightarrow> Some (Inl e)
                         | Inr newQM \<Rightarrow>
                             Option.bind
                               (Louvain shuf calls' qm (removeEmpty oldResult) opts)
                               (\<lambda>aggResult.
                                  case aggResult of
                                    Inl e \<Rightarrow> Some (Inl e)
                                  | Inr agg \<Rightarrow>
                                      Some (reviseResult newQM (removeEmpty oldResult) agg)))
                   else Some (Inr (removeEmpty oldResult, calls'))))"

partial_function (option) Leiden ::
    "(nat \<Rightarrow> nat list \<Rightarrow> nat list) \<Rightarrow> nat \<Rightarrow> QualityModel \<Rightarrow> community list \<Rightarrow> string list
     \<Rightarrow> (error + (community list \<times> nat)) option" where
  "Leiden shuf calls qm communities opts =
     (case GetCompleteCommunities (qm_cm qm) communities of
        Inl e \<Rightarrow> Some (Inl e)
      | Inr result \<Rightarrow>
          Option.bind
            (localMoving qm (parseOptions opts) shuf (GetN (qm_cm qm)) (length result)
               result (initCommunityIDs (GetN (qm_cm qm)) result) calls)
            (\<lambda>moved.
               case moved of
                 Inl e \<Rightarrow> Some (Inl e)
               | Inr (oldResult, calls') \<Rightarrow>
                   if multiResolution (parseOptions opts)
                   then (case qm_Aggregate qm (removeEmpty oldResult) of
                           Inl e \<Rightarrow> Some (Inl e)
                         | Inr newQM \<Rightarrow>
                             Option.bind
                               (Leiden shuf calls' qm (removeEmpty oldResult) opts)
                               (\<lambda>aggResult.
                                  case aggResult of
                                    Inl e \<Rightarrow> Some (Inl e)
                                  | Inr agg \<Rightarrow>
                                      Some (reviseResult newQM (removeEmpty oldResult) agg)))
                   else Some (Inr (removeEmpty oldResult, calls'))))"

section \<open>Notions used in the statements, and example inputs\<close>

text \<open>
  \<open>disjointGroups M cs\<close>: no group of \<open>cs\<close> meets \<open>M\<close> or an earlier group; this is what
  the markers of \<open>GetCompleteCommunities\<close> check.
\<close>

fun disjointGroups :: "nat set \<Rightarrow> community list \<Rightarrow> bool" where
  "disjointGroups M [] = True"
| "disjointGroups M (c # cs) = (c \<inter> M = {} \<and> disjointGroups (M \<union> c) cs)"

text \<open>Two nodes joined by one edge of weight 1.\<close>

definition twoNodes :: concurrences where
  "twoNodes = [0 \<mapsto> [1 \<mapsto> 1], 1 \<mapsto> [0 \<mapsto> 1]]"

definition twoNodeModel :: ConcurrenceModel where
  "twoNodeModel = \<lparr>cm_n = 2, sumConcurrences = 2, sumConcurrencesOf = [1, 1],
          meanConcurrenceOf = [Finite 1, Finite 1], varConcurrenceOf = [Finite 0, Finite 0],
          concurrences = twoNodes\<rparr>"

text \<open>
  Five nodes: a triangle \<open>1, 2, 3\<close> of weight 12, node \<open>4\<close> tied to node \<open>1\<close> with weight
  3, and node \<open>0\<close> without a neighbour.
\<close>

definition fiveNodes :: concurrences where
  "fiveNodes = [1 \<mapsto> [2 \<mapsto> 12, 3 \<mapsto> 12, 4 \<mapsto> 3], 2 \<mapsto> [1 \<mapsto> 12, 3 \<mapsto> 12],
                3 \<mapsto> [1 \<mapsto> 12, 2 \<mapsto> 12], 4 \<mapsto> [1 \<mapsto> 3]]"

definition fiveNodeModel :: ConcurrenceModel where
  "fiveNodeModel =
     \<lparr>cm_n = 5, sumConcurrences = 78, sumConcurrencesOf = [0, 27, 24, 24, 3],
      meanConcurrenceOf = [Finite 0, Finite 9, Finite 12, Finite 12, Finite 3],
      varConcurrenceOf = [Finite 0, Finite 18, Finite 0, Finite 0, Finite 0],
      concurrences = fiveNodes\<rparr>"

text \<open>A random source that leaves every order as it is.\<close>

definition keepOrder :: "nat \<Rightarrow> nat list \<Rightarrow> nat list" where
  "keepOrder calls points = points"

text \<open>
  The distance matrix of three clusters \<open>{0}, {1}, {2}\<close> on a path \<open>0 - 1 - 2\<close>, with
  distances \<open>1/4\<close> and \<open>1/2\<close>; the clusters 0 and 2 have no entry for each other.
\<close>

definition pathDist :: "(nat \<rightharpoonup> float64) list" where
  "pathDist =
     [[1 \<mapsto> Finite (1/4)], [0 \<mapsto> Finite (1/4), 2 \<mapsto> Finite (1/2)], [1 \<mapsto> Finite (1/2)]]"

text \<open>
  Three nodes and one edge of weight 1: between the nodes 0 and 1, node 2 having no
  neighbour, and between the nodes 1 and 2, node 0 having none.
\<close>

definition isolatedLast :: concurrences where
  "isolatedLast = [0 \<mapsto> [1 \<mapsto> 1], 1 \<mapsto> [0 \<mapsto> 1]]"

definition isolatedLastModel :: ConcurrenceModel where
  "isolatedLastModel =
     \<lparr>cm_n = 3, sumConcurrences = 2, sumConcurrencesOf = [1, 1, 0],
      meanConcurrenceOf = [Finite 1, Finite 1, Finite 0],
      varConcurrenceOf = [Finite 0, Finite 0, Finite 0],
      concurrences = isolatedLast\<rparr>"

definition isolatedFirst :: concurrences where
  "isolatedFirst = [1 \<mapsto> [2 \<mapsto> 1], 2 \<mapsto> [1 \<mapsto> 1]]"

definition isolatedFirstModel :: ConcurrenceModel where
  "isolatedFirstModel =
     \<lparr>cm_n = 3, sumConcurrences = 2, sumConcurrencesOf = [0, 1, 1],
      meanConcurrenceOf = [Finite 0, Finite 1, Finite 1],
      varConcurrenceOf = [Finite 0, Finite 0, Finite 0],
      concurrences = isolatedFirst\<rparr>"

text \<open>The plain similarities of these two graphs.\<close>

definition lastSim :: simMat where
  "lastSim = [0 \<mapsto> [0 \<mapsto> Finite 1, 1 \<mapsto> Finite 1], 1 \<mapsto> [1 \<mapsto> Finite 1, 0 \<mapsto> Finite 1]]"

definition firstSim :: simMat where
  "firstSim = [1 \<mapsto> [1 \<mapsto> Finite 1, 2 \<mapsto> Finite 1], 2 \<mapsto> [2 \<mapsto> Finite 1, 1 \<mapsto> Finite 1]]"

text \<open>
  \<open>entry S u v\<close>: the value a similarity matrix holds for the ordered pair \<open>(u, v)\<close>, if
  any.
\<close>

definition entry :: "simMat \<Rightarrow> nat \<Rightarrow> nat \<Rightarrow> float64 option" where
  "entry S u v = (case S u of None \<Rightarrow> None | Some row \<Rightarrow> row v)"


section \<open>Arithmetic on finite floats\<close>

lemma Finite_arith [simp]:
  "Finite a + Finite b = Finite (a + b)"
  "Finite a - Finite b = Finite (a - b)"
  "Finite a * Finite b = Finite (a * b)"
  "- Finite a = Finite (- a)"
  "b \<noteq> 0 \<Longrightarrow> Finite a / Finite b = Finite (a / b)"
  "(Finite a < Finite b) = (a < b)"
  "(Finite a \<le> Finite b) = (a \<le> b)"
  "(0::float64) = Finite 0"
  "(1::float64) = Finite 1"
  by (simp_all add: plus_float64_def minus_float64_def times_float64_def uminus_float64_def
      divide_float64_def less_float64_def less_eq_float64_def zero_float64_def one_float64_def)

section \<open>Construction of the graph\<close>








section \<open>Completing a partition\<close>

lemma copyCommunities_result:
  "copyCommunities k M cs = Inr r \<Longrightarrow> r = (cs, M \<union> \<Union>(set cs))"
proof (induction cs arbitrary: M r)
  case Nil
  then show ?case by simp
next
  case (Cons c cs)
  from Cons.prems obtain r' where r': "copyCommunities k (M \<union> c) cs = Inr r'"
    and r: "r = (c # fst r', snd r')"
    by (auto split: if_splits sum.splits)
  from Cons.IH[OF r'] r show ?case by auto
qed

lemma copyCommunities_succeeds_iff:
  "(\<exists>r. copyCommunities k M cs = Inr r)
   \<longleftrightarrow> (\<forall>c\<in>set cs. \<forall>p\<in>c. p < k) \<and> disjointGroups M cs"
proof (induction cs arbitrary: M)
  case Nil
  then show ?case by simp
next
  case (Cons c cs)
  show ?case
  proof (cases "(\<exists>p\<in>c. k \<le> p) \<or> (\<exists>p\<in>c. p \<in> M)")
    case True
    then show ?thesis by (auto simp: not_less)
  next
    case False
    then have "(\<exists>r. copyCommunities k M (c # cs) = Inr r)
               \<longleftrightarrow> (\<exists>r. copyCommunities k (M \<union> c) cs = Inr r)"
      by (auto split: sum.splits)
    also have "\<dots> \<longleftrightarrow> (\<forall>c\<in>set cs. \<forall>p\<in>c. p < k) \<and> disjointGroups (M \<union> c) cs"
      by (rule Cons.IH)
    finally show ?thesis using False by (auto simp: not_le)
  qed
qed

lemma disjointGroups_append:
  "disjointGroups M (xs @ ys) \<longleftrightarrow> disjointGroups M xs \<and> disjointGroups (M \<union> \<Union>(set xs)) ys"
  by (induction xs arbitrary: M) (auto simp: Un_assoc)

lemma disjointGroups_singletons:
  "disjointGroups M (map (\<lambda>i. {i}) is) \<longleftrightarrow> distinct is \<and> set is \<inter> M = {}"
  by (induction "is" arbitrary: M) auto

lemma pairs_Cons:
  "(\<exists>i j. i < j \<and> j < length (c # cs) \<and> (c # cs) ! i \<inter> (c # cs) ! j \<noteq> {})
   \<longleftrightarrow> (\<exists>d\<in>set cs. c \<inter> d \<noteq> {}) \<or> (\<exists>i j. i < j \<and> j < length cs \<and> cs ! i \<inter> cs ! j \<noteq> {})"
  (is "?L \<longleftrightarrow> ?A \<or> ?B")
proof
  assume ?L
  then obtain i j where ij: "i < j" "j < length (c # cs)" "(c # cs) ! i \<inter> (c # cs) ! j \<noteq> {}"
    by blast
  from ij obtain j' where j': "j = Suc j'" by (cases j) auto
  show "?A \<or> ?B"
  proof (cases i)
    case 0
    with ij j' have "c \<inter> cs ! j' \<noteq> {}" "j' < length cs" by auto
    then show ?thesis by (metis nth_mem)
  next
    case (Suc i')
    with ij j' have "i' < j'" "j' < length cs" "cs ! i' \<inter> cs ! j' \<noteq> {}" by auto
    then show ?thesis by blast
  qed
next
  assume "?A \<or> ?B"
  then show ?L
  proof
    assume ?A
    then obtain d where d: "d \<in> set cs" "c \<inter> d \<noteq> {}" by blast
    from d(1) obtain j' where "j' < length cs" "cs ! j' = d"
      by (auto simp: in_set_conv_nth)
    with d(2) have "j' < length cs" "c \<inter> cs ! j' \<noteq> {}" by simp_all
    then have "0 < Suc j' \<and> Suc j' < length (c # cs) \<and> (c # cs) ! 0 \<inter> (c # cs) ! Suc j' \<noteq> {}"
      by simp
    then show ?L by blast
  next
    assume ?B
    then obtain i j where "i < j" "j < length cs" "cs ! i \<inter> cs ! j \<noteq> {}" by blast
    then have "Suc i < Suc j \<and> Suc j < length (c # cs) \<and> (c # cs) ! Suc i \<inter> (c # cs) ! Suc j \<noteq> {}"
      by simp
    then show ?L by blast
  qed
qed

lemma disjointGroups_iff:
  "disjointGroups M cs
   \<longleftrightarrow> (\<forall>c\<in>set cs. c \<inter> M = {})
       \<and> \<not> (\<exists>i j. i < j \<and> j < length cs \<and> cs ! i \<inter> cs ! j \<noteq> {})"
proof (induction cs arbitrary: M)
  case Nil
  then show ?case by simp
next
  case (Cons c cs)
  have "disjointGroups M (c # cs)
        \<longleftrightarrow> c \<inter> M = {} \<and> (\<forall>d\<in>set cs. d \<inter> (M \<union> c) = {})
            \<and> \<not> (\<exists>i j. i < j \<and> j < length cs \<and> cs ! i \<inter> cs ! j \<noteq> {})"
    using Cons.IH[of "M \<union> c"] by simp
  also have "\<dots> \<longleftrightarrow> (\<forall>d\<in>set (c # cs). d \<inter> M = {})
                \<and> \<not> ((\<exists>d\<in>set cs. c \<inter> d \<noteq> {})
                       \<or> (\<exists>i j. i < j \<and> j < length cs \<and> cs ! i \<inter> cs ! j \<noteq> {}))"
    by auto
  finally show ?case unfolding pairs_Cons .
qed

lemma GetCompleteCommunities_Inr:
  assumes "GetCompleteCommunities cm cs = Inr out"
  shows "out = cs @ map (\<lambda>i. {i}) (filter (\<lambda>i. i \<notin> \<Union>(set cs)) [0..<cm_n cm])"
    and "\<forall>c\<in>set cs. \<forall>p\<in>c. p < cm_n cm"
    and "disjointGroups {} cs"
proof -
  from assms obtain r where r: "copyCommunities (cm_n cm) {} cs = Inr r"
    by (auto simp: GetCompleteCommunities_def split: sum.splits)
  from copyCommunities_result[OF r] have r_eq: "r = (cs, \<Union>(set cs))" by simp
  from assms r r_eq show "out = cs @ map (\<lambda>i. {i}) (filter (\<lambda>i. i \<notin> \<Union>(set cs)) [0..<cm_n cm])"
    by (simp add: GetCompleteCommunities_def)
  from r copyCommunities_succeeds_iff[of "cm_n cm" "{}" cs]
  show "\<forall>c\<in>set cs. \<forall>p\<in>c. p < cm_n cm" and "disjointGroups {} cs" by blast+
qed

lemma GetCompleteCommunities_idem:
  assumes "GetCompleteCommunities cm cs = Inr out"
  shows "GetCompleteCommunities cm out = Inr out"
proof -
  let ?k = "cm_n cm"
  let ?rest = "filter (\<lambda>i. i \<notin> \<Union>(set cs)) [0..<?k]"
  note facts = GetCompleteCommunities_Inr[OF assms]
  have out: "out = cs @ map (\<lambda>i. {i}) ?rest" by (rule facts(1))
  have bound: "\<forall>c\<in>set out. \<forall>p\<in>c. p < ?k"
    using facts(2) by (auto simp: out)
  have disj: "disjointGroups {} out"
    unfolding out disjointGroups_append disjointGroups_singletons
    using facts(3) by auto
  from bound disj copyCommunities_succeeds_iff[of ?k "{}" out]
  obtain r where r: "copyCommunities ?k {} out = Inr r" by blast
  from copyCommunities_result[OF r] have r_eq: "r = (out, \<Union>(set out))" by simp
  have cover: "\<Union>(set out) = {0..<?k}"
    using facts(2) by (auto simp: out)
  have "filter (\<lambda>i. i \<notin> \<Union>(set out)) [0..<?k] = []"
    unfolding cover by (simp add: filter_empty_conv)
  with r r_eq show ?thesis by (simp add: GetCompleteCommunities_def)
qed

lemma GetCompleteCommunities_fails_iff:
  "(\<exists>e. GetCompleteCommunities cm cs = Inl e)
   \<longleftrightarrow> (\<exists>c\<in>set cs. \<exists>p\<in>c. cm_n cm \<le> p)
       \<or> (\<exists>i j. i < j \<and> j < length cs \<and> cs ! i \<inter> cs ! j \<noteq> {})"
proof -
  have "(\<exists>e. GetCompleteCommunities cm cs = Inl e)
        \<longleftrightarrow> \<not> (\<exists>r. copyCommunities (cm_n cm) {} cs = Inr r)"
    by (cases "copyCommunities (cm_n cm) {} cs") (auto simp: GetCompleteCommunities_def)
  also have "\<dots> \<longleftrightarrow> \<not> ((\<forall>c\<in>set cs. \<forall>p\<in>c. p < cm_n cm) \<and> disjointGroups {} cs)"
    unfolding copyCommunities_succeeds_iff ..
  also have "\<dots> \<longleftrightarrow> (\<exists>c\<in>set cs. \<exists>p\<in>c. cm_n cm \<le> p) \<or> \<not> disjointGroups {} cs"
    by (auto simp: not_less)
  also have "\<not> disjointGroups {} cs
             \<longleftrightarrow> (\<exists>i j. i < j \<and> j < length cs \<and> cs ! i \<inter> cs ! j \<noteq> {})"
    unfolding disjointGroups_iff by blast
  finally show ?thesis .
qed


text \<open>
  C10.  \<open>GetCompleteCommunities\<close> on the empty list gives the \<open>n\<close> singletons
  \<open>{0}, \<dots>, {n - 1}\<close> in this order; applied to its own output it returns that output
  unchanged, so in particular the same groups; and it ends in a fatal error exactly for
  the inputs that hold a node id \<open>\<ge> n\<close> or put a node into two groups.
\<close>

theorem GetCompleteCommunities_complete:
  "GetCompleteCommunities cm [] = Inr (map (\<lambda>i. {i}) [0..<cm_n cm])
   \<and> (\<forall>out. GetCompleteCommunities cm cs = Inr out \<longrightarrow> GetCompleteCommunities cm out = Inr out)
   \<and> ((\<exists>e. GetCompleteCommunities cm cs = Inl e)
       \<longleftrightarrow> (\<exists>c\<in>set cs. \<exists>p\<in>c. cm_n cm \<le> p)
           \<or> (\<exists>i j. i < j \<and> j < length cs \<and> cs ! i \<inter> cs ! j \<noteq> {}))"
  using GetCompleteCommunities_idem GetCompleteCommunities_fails_iff[of cm cs]
  by (simp add: GetCompleteCommunities_def)

theorem GetCompleteCommunities_complete_witness:
  "GetCompleteCommunities twoNodeModel [{1}] = Inr [{1}, {0}]
   \<and> GetCompleteCommunities twoNodeModel [{1}, {0}] = Inr [{1}, {0}]
   \<and> (\<exists>c\<in>set [{0}, {0, 2}]. \<exists>p\<in>c. cm_n twoNodeModel \<le> p)
   \<and> (\<exists>e. GetCompleteCommunities twoNodeModel [{0}, {0, 2}] = Inl e)"
proof -
  have first: "GetCompleteCommunities twoNodeModel [{1}] = Inr [{1}, {0}]"
    by (simp add: GetCompleteCommunities_def twoNodeModel_def upt_rec)
  have bad: "\<exists>c\<in>set [{0}, {0, 2::nat}]. \<exists>p\<in>c. cm_n twoNodeModel \<le> p"
    by (simp add: twoNodeModel_def)
  from GetCompleteCommunities_complete[of twoNodeModel "[{1}]"] first
  have "GetCompleteCommunities twoNodeModel [{1}, {0}] = Inr [{1}, {0}]" by blast
  moreover from GetCompleteCommunities_complete[of twoNodeModel "[{0}, {0, 2}]"] bad
  have "\<exists>e. GetCompleteCommunities twoNodeModel [{0}, {0, 2}] = Inl e" by blast
  ultimately show ?thesis using first bad by blast
qed

section \<open>Aggregation\<close>

lemma weightI1I2_as_sum:
  "weightI1I2 cm ca cb = (\<Sum>p\<in>ca. \<Sum>q\<in>cb. GetConcurrence cm p q)"
  unfolding weightI1I2_def GetConcurrence_def GetConcurrencesOf_def
  by (rule sum.cong) (auto split: option.splits intro!: sum.cong)

lemma dom_newConcurrences:
  "dom (newConcurrences cm cs) = {0..<length cs}"
  by (auto simp: newConcurrences_def split: if_splits)

lemma newConcurrences_row:
  "i < length cs \<Longrightarrow>
   newConcurrences cm cs i
   = Some (\<lambda>j. if j < length cs \<and> j \<noteq> i
                    \<and> weightI1I2 cm (cs ! min i j) (cs ! max i j) \<noteq> 0
                 then Some (weightI1I2 cm (cs ! min i j) (cs ! max i j)) else None)"
  by (simp add: newConcurrences_def)

lemma nodeIDs_newConcurrences:
  "nodeIDs (newConcurrences cm cs) = {0..<length cs}"
  unfolding nodeIDs_def dom_newConcurrences
  by (auto simp: newConcurrences_row split: if_splits)

lemma maxNodeID_newConcurrences:
  "cs \<noteq> [] \<Longrightarrow> maxNodeID (newConcurrences cm cs) < length cs"
  unfolding maxNodeID_def nodeIDs_newConcurrences
  by (subst Max_less_iff) auto

lemma newConcurrences_symmetric:
  "u \<in> dom (newConcurrences cm cs) \<Longrightarrow> v \<in> dom (the (newConcurrences cm cs u))
   \<Longrightarrow> \<not> asymmetricAt (newConcurrences cm cs) u v"
  unfolding dom_newConcurrences
  by (auto simp: newConcurrences_row asymmetricAt_def min.commute max.commute split: if_splits)

lemma verify_newConcurrences:
  "cs \<noteq> [] \<Longrightarrow> verifyConcurrences (length cs) (newConcurrences cm cs) = Inr ()"
  using maxNodeID_newConcurrences[of cs cm] newConcurrences_symmetric[of _ cm cs]
  by (auto simp: verifyConcurrences_def)

lemma Aggregate_nonempty:
  assumes "cs \<noteq> []"
  shows "\<exists>newCM. Aggregate cm cs = Inr newCM \<and> cm_n newCM = length cs
           \<and> concurrences newCM = newConcurrences cm cs"
  using verify_newConcurrences[OF assms, of cm]
  by (simp add: Aggregate_def SetConcurrences_def)

lemma GetConcurrence_newConcurrences:
  assumes "concurrences newCM = newConcurrences cm cs" "i < length cs" "j < length cs"
  shows "GetConcurrence newCM i j
         = (if i = j then 0 else weightI1I2 cm (cs ! min i j) (cs ! max i j))"
  using assms by (simp add: GetConcurrence_def GetConcurrencesOf_def newConcurrences_row)

text \<open>
  C9, as amended.  For a non-empty list of groups \<open>Aggregate\<close> returns a new model with one
  node per group, node \<open>i\<close> standing for the \<open>i\<close>-th group; between two distinct groups
  its weight is, in either direction, the sum (in \<open>uint\<close> arithmetic) of the weights
  stored from a node of the earlier group to a node of the later one, and no node has a
  weight to itself.  The function only reads \<open>cm\<close>: the new model is its whole result.
\<close>

theorem Aggregate_sums_crossing_weights:
  assumes "communities \<noteq> []"
  shows "\<exists>newCM. Aggregate cm communities = Inr newCM
           \<and> GetN newCM = length communities
           \<and> (\<forall>i j. i < j \<and> j < length communities \<longrightarrow>
                 GetConcurrence newCM i j
                   = (\<Sum>p\<in>communities ! i. \<Sum>q\<in>communities ! j. GetConcurrence cm p q)
                 \<and> GetConcurrence newCM j i = GetConcurrence newCM i j)
           \<and> (\<forall>i. i < length communities \<longrightarrow> GetConcurrence newCM i i = 0)"
proof -
  from Aggregate_nonempty[OF assms, of cm] obtain newCM where
    agg: "Aggregate cm communities = Inr newCM" and n: "cm_n newCM = length communities"
    and conc: "concurrences newCM = newConcurrences cm communities" by blast
  have cross: "GetConcurrence newCM i j
                 = (\<Sum>p\<in>communities ! i. \<Sum>q\<in>communities ! j. GetConcurrence cm p q)
               \<and> GetConcurrence newCM j i = GetConcurrence newCM i j"
    if "i < j" "j < length communities" for i j
    using that GetConcurrence_newConcurrences[OF conc, of i j]
      GetConcurrence_newConcurrences[OF conc, of j i]
    by (simp add: weightI1I2_as_sum min_def max_def)
  have diag: "GetConcurrence newCM i i = 0" if "i < length communities" for i
    using that GetConcurrence_newConcurrences[OF conc, of i i] by simp
  from agg n cross diag show ?thesis by (auto simp: GetN_def)
qed


theorem Aggregate_sums_crossing_weights_witness:
  "[{0}, {1::nat}] \<noteq> []
   \<and> (\<exists>newCM. Aggregate twoNodeModel [{0}, {1}] = Inr newCM
         \<and> GetN newCM = 2
         \<and> GetConcurrence newCM 0 1 = 1 \<and> GetConcurrence newCM 1 0 = 1
         \<and> GetConcurrence newCM 0 0 = 0 \<and> GetConcurrence newCM 1 1 = 0)"
proof -
  have ne: "[{0}, {1::nat}] \<noteq> []" by simp
  have w: "(\<Sum>p\<in>[{0}, {1::nat}] ! 0. \<Sum>q\<in>[{0}, {1}] ! 1. GetConcurrence twoNodeModel p q) = 1"
    by (simp add: GetConcurrence_def GetConcurrencesOf_def twoNodeModel_def twoNodes_def)
  from Aggregate_sums_crossing_weights[OF ne, of twoNodeModel] obtain newCM where
    agg: "Aggregate twoNodeModel [{0}, {1}] = Inr newCM"
    and n: "GetN newCM = length [{0}, {1::nat}]"
    and cross: "\<forall>i j. i < j \<and> j < length [{0}, {1::nat}] \<longrightarrow>
                 GetConcurrence newCM i j
                   = (\<Sum>p\<in>[{0}, {1}] ! i. \<Sum>q\<in>[{0}, {1}] ! j. GetConcurrence twoNodeModel p q)
                 \<and> GetConcurrence newCM j i = GetConcurrence newCM i j"
    and diag: "\<forall>i. i < length [{0}, {1::nat}] \<longrightarrow> GetConcurrence newCM i i = 0"
    by blast
  from cross[rule_format, of 0 1] w
  have "GetConcurrence newCM 0 1 = 1" "GetConcurrence newCM 1 0 = 1" by simp_all
  moreover from diag[rule_format, of 0] diag[rule_format, of 1]
  have "GetConcurrence newCM 0 0 = 0" "GetConcurrence newCM 1 1 = 0" by simp_all
  ultimately show ?thesis using agg n ne by auto
qed

text \<open>
  The list of groups may be empty: the model that \<open>NewConcurrenceModel\<close> returns has no
  node, and its complete partition has no group.  Then the new model is built with
  \<open>n = 0\<close>, which \<open>SetConcurrences\<close> refuses.
\<close>

theorem Aggregate_empty_partition_fatal:
  "GetCompleteCommunities NewConcurrenceModel [] = Inr []
   \<and> Aggregate NewConcurrenceModel [] = Inl MaxNodeIDGeN"
  by (simp add: Aggregate_def SetConcurrences_def verifyConcurrences_def maxNodeID_def
      nodeIDs_def newConcurrences_def GetCompleteCommunities_def NewConcurrenceModel_def)

section \<open>Quality and its change\<close>


text \<open>
  C2.  On the graph of two nodes joined by an edge of weight 1, with \<open>r = 1\<close> and the
  complete partition \<open>{0}, {1}\<close>, moving node 0 from group 0 to group 1 changes the
  modularity from \<open>-1/2\<close> to \<open>0\<close>, while \<open>DeltaQuality\<close> is \<open>1/4\<close>; it leaves the CPM
  quality at \<open>-2\<close>, while \<open>DeltaQuality\<close> is \<open>-1\<close>.  \<open>Quality\<close> counts every pair of a group
  from both ends, \<open>DeltaQuality\<close> counts the pairs of the moved node once.  Every number
  met on the way is an integer or a multiple of \<open>1/4\<close>, so that \<open>float64\<close> computes them
  without rounding.
\<close>

theorem DeltaQuality_differs_from_change_of_Quality:
  "moveNode [{0}, {1}] 0 0 1 = [{}, {0, 1}]
   \<and> Quality (Modularity (Finite 1) twoNodeModel) [{0}, {1}] = Inr (Finite (- 1 / 2))
   \<and> Quality (Modularity (Finite 1) twoNodeModel) [{}, {0, 1}] = Inr (Finite 0)
   \<and> DeltaQuality (Modularity (Finite 1) twoNodeModel) [{0}, {1}] 0 0 1 = Inr (Finite (1 / 4))
   \<and> Quality (CPM (Finite 1) twoNodeModel) [{0}, {1}] = Inr (Finite (- 2))
   \<and> Quality (CPM (Finite 1) twoNodeModel) [{}, {0, 1}] = Inr (Finite (- 2))
   \<and> DeltaQuality (CPM (Finite 1) twoNodeModel) [{0}, {1}] 0 0 1 = Inr (Finite (- 1))"
proof -
  have "moveNode [{0}, {1}] 0 0 1 = [{}, {0, 1::nat}]"
    by code_simp
  moreover have "Quality (Modularity (Finite 1) twoNodeModel) [{0}, {1}] = Inr (Finite (- 1 / 2))"
    by code_simp
  moreover have "Quality (Modularity (Finite 1) twoNodeModel) [{}, {0, 1}] = Inr (Finite 0)"
    by code_simp
  moreover have "DeltaQuality (Modularity (Finite 1) twoNodeModel) [{0}, {1}] 0 0 1
                 = Inr (Finite (1 / 4))"
    by code_simp
  moreover have "Quality (CPM (Finite 1) twoNodeModel) [{0}, {1}] = Inr (Finite (- 2))"
    by code_simp
  moreover have "Quality (CPM (Finite 1) twoNodeModel) [{}, {0, 1}] = Inr (Finite (- 2))"
    by code_simp
  moreover have "DeltaQuality (CPM (Finite 1) twoNodeModel) [{0}, {1}] 0 0 1 = Inr (Finite (- 1))"
    by code_simp
  ultimately show ?thesis by blast
qed

section \<open>Sweeps of the sequential selector\<close>

lemma localMoving_seq_done:
  assumes "useSeqSelector os"
    and "seqSweep qm m (accessOrder os shuf calls k) (result, communityIDs, True)
         = Inr (result', ids', True)"
  shows "localMoving qm os shuf k m result communityIDs calls
         = Some (Inr (result', nextCalls os calls))"
  using assms by (subst localMoving.simps) simp

lemma localMoving_seq_again:
  assumes "useSeqSelector os"
    and "seqSweep qm m (accessOrder os shuf calls k) (result, communityIDs, True)
         = Inr (result', ids', False)"
  shows "localMoving qm os shuf k m result communityIDs calls
         = localMoving qm os shuf k m result' ids' (nextCalls os calls)"
  using assms by (subst localMoving.simps) simp

lemma accessOrder_noshuffle: "\<not> shuffle os \<Longrightarrow> accessOrder os shuf calls k = [0..<k]"
  by (simp add: accessOrder_def)

lemma nextCalls_noshuffle: "\<not> shuffle os \<Longrightarrow> nextCalls os calls = calls"
  by (simp add: nextCalls_def)

lemma parse_default:
  "parseOptions [] = \<lparr>useSeqSelector = True, multiResolution = True, shuffle = False\<rparr>"
  by (simp add: parseOptions_def)

lemma parse_single:
  "parseOptions [''single resolution'']
   = \<lparr>useSeqSelector = True, multiResolution = False, shuffle = False\<rparr>"
  by (simp add: parseOptions_def parseOption_def)

lemma five_sweep1:
  "seqSweep (CPM (Finite 1) fiveNodeModel) 2 [0..<5]
     ([{0}, {1, 2, 3, 4}], [0, 1, 1, 1, 1], True)
   = Inr ([{0, 4}, {1, 2, 3}], [0, 1, 1, 1, 0], False)"
  by code_simp

lemma five_sweep2:
  "seqSweep (CPM (Finite 1) fiveNodeModel) 2 [0..<5]
     ([{0, 4}, {1, 2, 3}], [0, 1, 1, 1, 0], True)
   = Inr ([{0, 4}, {1, 2, 3}], [0, 1, 1, 1, 0], True)"
  by code_simp

lemma five_moving:
  assumes "useSeqSelector os" "\<not> shuffle os"
  shows "localMoving (CPM (Finite 1) fiveNodeModel) os shuf 5 2
           [{0}, {1, 2, 3, 4}] [0, 1, 1, 1, 1] calls
         = Some (Inr ([{0, 4}, {1, 2, 3}], calls))"
proof -
  let ?qm = "CPM (Finite 1) fiveNodeModel"
  have ao: "accessOrder os shuf c 5 = [0..<5]" for c
    using assms(2) by (rule accessOrder_noshuffle)
  have nc: "nextCalls os c = c" for c
    using assms(2) by (rule nextCalls_noshuffle)
  have s1: "seqSweep ?qm 2 (accessOrder os shuf calls 5)
              ([{0}, {1, 2, 3, 4}], [0, 1, 1, 1, 1], True)
            = Inr ([{0, 4}, {1, 2, 3}], [0, 1, 1, 1, 0], False)"
    unfolding ao by (rule five_sweep1)
  have s2: "seqSweep ?qm 2 (accessOrder os shuf calls 5)
              ([{0, 4}, {1, 2, 3}], [0, 1, 1, 1, 0], True)
            = Inr ([{0, 4}, {1, 2, 3}], [0, 1, 1, 1, 0], True)"
    unfolding ao by (rule five_sweep2)
  have "localMoving ?qm os shuf 5 2 [{0}, {1, 2, 3, 4}] [0, 1, 1, 1, 1] calls
        = localMoving ?qm os shuf 5 2 [{0, 4}, {1, 2, 3}] [0, 1, 1, 1, 0] calls"
    using localMoving_seq_again[OF assms(1) s1] unfolding nc .
  also have "\<dots> = Some (Inr ([{0, 4}, {1, 2, 3}], calls))"
    using localMoving_seq_done[OF assms(1) s2] unfolding nc .
  finally show ?thesis .
qed

lemma Louvain_single:
  assumes "GetCompleteCommunities (qm_cm qm) communities = Inr result"
    and "localMoving qm (parseOptions opts) shuf (GetN (qm_cm qm)) (length result) result
           (initCommunityIDs (GetN (qm_cm qm)) result) calls = Some (Inr (oldResult, calls'))"
    and "\<not> multiResolution (parseOptions opts)"
  shows "Louvain shuf calls qm communities opts = Some (Inr (removeEmpty oldResult, calls'))"
  by (subst Louvain.simps) (simp add: assms)

text \<open>
  C8.  With the CPM model, \<open>r = 1\<close>, on the five-node graph, started from the complete
  partition \<open>{0}, {1, 2, 3, 4}\<close>: the first sweep of the sequential selector moves node 4,
  and only node 4, to group 0, for \<open>DeltaQuality = 1 > 0\<close>; the quality of the partition
  falls from 61 to 59.  The second sweep moves nothing, and with a single resolution
  \<open>Louvain\<close> returns the partition of lower quality.  All numbers are small integers.
\<close>

theorem sweep_decreases_CPM_quality:
  "DeltaQuality (CPM (Finite 1) fiveNodeModel) [{0}, {1, 2, 3, 4}] 4 1 0 = Inr (Finite 1)
   \<and> seqSweep (CPM (Finite 1) fiveNodeModel) 2 [0..<5]
        ([{0}, {1, 2, 3, 4}], [0, 1, 1, 1, 1], True)
      = Inr ([{0, 4}, {1, 2, 3}], [0, 1, 1, 1, 0], False)
   \<and> Quality (CPM (Finite 1) fiveNodeModel) [{0}, {1, 2, 3, 4}] = Inr (Finite 61)
   \<and> Quality (CPM (Finite 1) fiveNodeModel) [{0, 4}, {1, 2, 3}] = Inr (Finite 59)
   \<and> Louvain keepOrder 0 (CPM (Finite 1) fiveNodeModel) [{0}, {1, 2, 3, 4}]
        [''single resolution'']
      = Some (Inr ([{0, 4}, {1, 2, 3}], 0))"
proof -
  let ?qm = "CPM (Finite 1) fiveNodeModel"
  have d: "DeltaQuality ?qm [{0}, {1, 2, 3, 4}] 4 1 0 = Inr (Finite 1)"
    by code_simp
  have q1: "Quality ?qm [{0}, {1, 2, 3, 4}] = Inr (Finite 61)"
    by code_simp
  have q2: "Quality ?qm [{0, 4}, {1, 2, 3}] = Inr (Finite 59)"
    by code_simp
  have n: "GetN (qm_cm ?qm) = 5"
    by (simp add: GetN_def fiveNodeModel_def)
  have len: "length [{0}, {1, 2, 3, 4::nat}] = 2"
    by simp
  have ids: "initCommunityIDs 5 [{0}, {1, 2, 3, 4}] = [0, 1, 1, 1, 1]"
    by code_simp
  have gc: "GetCompleteCommunities (qm_cm ?qm) [{0}, {1, 2, 3, 4}] = Inr [{0}, {1, 2, 3, 4}]"
    by code_simp
  have lm: "localMoving ?qm (parseOptions [''single resolution'']) keepOrder (GetN (qm_cm ?qm))
              (length [{0}, {1, 2, 3, 4::nat}]) [{0}, {1, 2, 3, 4}]
              (initCommunityIDs (GetN (qm_cm ?qm)) [{0}, {1, 2, 3, 4}]) 0
            = Some (Inr ([{0, 4}, {1, 2, 3}], 0))"
    unfolding n len ids by (rule five_moving) (simp_all add: parse_single)
  have re: "removeEmpty [{0, 4}, {1, 2, 3::nat}] = [{0, 4}, {1, 2, 3}]"
    by (simp add: removeEmpty_def)
  have nm: "\<not> multiResolution (parseOptions [''single resolution''])"
    by (simp add: parse_single)
  have "Louvain keepOrder 0 ?qm [{0}, {1, 2, 3, 4}] [''single resolution'']
        = Some (Inr ([{0, 4}, {1, 2, 3}], 0))"
    using Louvain_single[OF gc lm nm] unfolding re .
  with d q1 q2 five_sweep1 show ?thesis by blast
qed

section \<open>The recursion of the optimizers\<close>

text \<open>
  One unfolding of the body shared by \<open>Louvain\<close> and \<open>Leiden\<close>, with \<open>f\<close> for the call of
  step 6.2: if the body returns under multiple resolution, then so did that call, and
  with a partition if the body did.
\<close>

lemma optimizer_body_multi:
  assumes body: "(case GetCompleteCommunities (qm_cm qm) communities of
             Inl e \<Rightarrow> Some (Inl e)
           | Inr result \<Rightarrow>
               Option.bind
                 (localMoving qm (parseOptions opts) shuf (GetN (qm_cm qm)) (length result)
                    result (initCommunityIDs (GetN (qm_cm qm)) result) calls)
                 (\<lambda>moved.
                    case moved of
                      Inl e \<Rightarrow> Some (Inl e)
                    | Inr (oldResult, calls') \<Rightarrow>
                        if multiResolution (parseOptions opts)
                        then (case qm_Aggregate qm (removeEmpty oldResult) of
                                Inl e \<Rightarrow> Some (Inl e)
                              | Inr newQM \<Rightarrow>
                                  Option.bind
                                    (f shuf calls' qm (removeEmpty oldResult) opts)
                                    (\<lambda>aggResult.
                                       case aggResult of
                                         Inl e \<Rightarrow> Some (Inl e)
                                       | Inr agg \<Rightarrow>
                                           Some (reviseResult newQM (removeEmpty oldResult) agg)))
                        else Some (Inr (removeEmpty oldResult, calls')))) = Some y"
    and multi: "multiResolution (parseOptions opts)"
    and IH: "\<And>shuf calls qm communities opts y.
               f shuf calls qm communities opts = Some y \<Longrightarrow>
               multiResolution (parseOptions opts) \<longrightarrow> (\<exists>e. y = Inl e)"
  shows "\<exists>e. y = Inl e"
proof (cases "GetCompleteCommunities (qm_cm qm) communities")
  case (Inl e)
  with body show ?thesis by auto
next
  case complete: (Inr result)
  with body obtain moved where
    rest: "(case moved of
              Inl e \<Rightarrow> Some (Inl e)
            | Inr (oldResult, calls') \<Rightarrow>
                if multiResolution (parseOptions opts)
                then (case qm_Aggregate qm (removeEmpty oldResult) of
                        Inl e \<Rightarrow> Some (Inl e)
                      | Inr newQM \<Rightarrow>
                          Option.bind
                            (f shuf calls' qm (removeEmpty oldResult) opts)
                            (\<lambda>aggResult.
                               case aggResult of
                                 Inl e \<Rightarrow> Some (Inl e)
                               | Inr agg \<Rightarrow>
                                   Some (reviseResult newQM (removeEmpty oldResult) agg)))
                else Some (Inr (removeEmpty oldResult, calls'))) = Some y"
    by (auto simp: bind_eq_Some_conv)
  show ?thesis
  proof (cases moved)
    case (Inl e)
    with rest show ?thesis by auto
  next
    case moved: (Inr p)
    obtain oldResult calls' where p: "p = (oldResult, calls')" by (cases p)
    show ?thesis
    proof (cases "qm_Aggregate qm (removeEmpty oldResult)")
      case (Inl e)
      with rest moved p multi show ?thesis by auto
    next
      case (Inr newQM)
      with rest moved p multi obtain aggResult where
        rec: "f shuf calls' qm (removeEmpty oldResult) opts = Some aggResult"
        and y: "(case aggResult of
                   Inl e \<Rightarrow> Some (Inl e)
                 | Inr agg \<Rightarrow> Some (reviseResult newQM (removeEmpty oldResult) agg)) = Some y"
        by (auto simp: bind_eq_Some_conv)
      from IH[OF rec] multi obtain e where "aggResult = Inl e" by blast
      with y show ?thesis by auto
    qed
  qed
qed

lemma Louvain_multi_not_Inr:
  assumes run: "Louvain shuf calls qm communities opts = Some y"
  shows "multiResolution (parseOptions opts) \<longrightarrow> (\<exists>e. y = Inl e)"
proof (rule Louvain.raw_induct[where P = "\<lambda>shuf calls qm communities opts y.
          multiResolution (parseOptions opts) \<longrightarrow> (\<exists>e. y = Inl e)", OF _ run])
  fix f :: "(nat \<Rightarrow> nat list \<Rightarrow> nat list) \<Rightarrow> nat \<Rightarrow> QualityModel \<Rightarrow> community list \<Rightarrow> string list
            \<Rightarrow> (error + (community list \<times> nat)) option"
  fix shuf calls qm communities opts y
  assume IH: "\<And>shuf calls qm communities opts y.
                f shuf calls qm communities opts = Some y \<Longrightarrow>
                multiResolution (parseOptions opts) \<longrightarrow> (\<exists>e. y = Inl e)"
  assume body: "(case GetCompleteCommunities (qm_cm qm) communities of
             Inl e \<Rightarrow> Some (Inl e)
           | Inr result \<Rightarrow>
               Option.bind
                 (localMoving qm (parseOptions opts) shuf (GetN (qm_cm qm)) (length result)
                    result (initCommunityIDs (GetN (qm_cm qm)) result) calls)
                 (\<lambda>moved.
                    case moved of
                      Inl e \<Rightarrow> Some (Inl e)
                    | Inr (oldResult, calls') \<Rightarrow>
                        if multiResolution (parseOptions opts)
                        then (case qm_Aggregate qm (removeEmpty oldResult) of
                                Inl e \<Rightarrow> Some (Inl e)
                              | Inr newQM \<Rightarrow>
                                  Option.bind
                                    (f shuf calls' qm (removeEmpty oldResult) opts)
                                    (\<lambda>aggResult.
                                       case aggResult of
                                         Inl e \<Rightarrow> Some (Inl e)
                                       | Inr agg \<Rightarrow>
                                           Some (reviseResult newQM (removeEmpty oldResult) agg)))
                        else Some (Inr (removeEmpty oldResult, calls')))) = Some y"
  show "multiResolution (parseOptions opts) \<longrightarrow> (\<exists>e. y = Inl e)"
  proof
    assume multi: "multiResolution (parseOptions opts)"
    show "\<exists>e. y = Inl e"
      by (rule optimizer_body_multi[where f = f and shuf = shuf and calls = calls and qm = qm
            and communities = communities and opts = opts, OF body multi IH])
  qed
qed

lemma Leiden_multi_not_Inr:
  assumes run: "Leiden shuf calls qm communities opts = Some y"
  shows "multiResolution (parseOptions opts) \<longrightarrow> (\<exists>e. y = Inl e)"
proof (rule Leiden.raw_induct[where P = "\<lambda>shuf calls qm communities opts y.
          multiResolution (parseOptions opts) \<longrightarrow> (\<exists>e. y = Inl e)", OF _ run])
  fix f :: "(nat \<Rightarrow> nat list \<Rightarrow> nat list) \<Rightarrow> nat \<Rightarrow> QualityModel \<Rightarrow> community list \<Rightarrow> string list
            \<Rightarrow> (error + (community list \<times> nat)) option"
  fix shuf calls qm communities opts y
  assume IH: "\<And>shuf calls qm communities opts y.
                f shuf calls qm communities opts = Some y \<Longrightarrow>
                multiResolution (parseOptions opts) \<longrightarrow> (\<exists>e. y = Inl e)"
  assume body: "(case GetCompleteCommunities (qm_cm qm) communities of
             Inl e \<Rightarrow> Some (Inl e)
           | Inr result \<Rightarrow>
               Option.bind
                 (localMoving qm (parseOptions opts) shuf (GetN (qm_cm qm)) (length result)
                    result (initCommunityIDs (GetN (qm_cm qm)) result) calls)
                 (\<lambda>moved.
                    case moved of
                      Inl e \<Rightarrow> Some (Inl e)
                    | Inr (oldResult, calls') \<Rightarrow>
                        if multiResolution (parseOptions opts)
                        then (case qm_Aggregate qm (removeEmpty oldResult) of
                                Inl e \<Rightarrow> Some (Inl e)
                              | Inr newQM \<Rightarrow>
                                  Option.bind
                                    (f shuf calls' qm (removeEmpty oldResult) opts)
                                    (\<lambda>aggResult.
                                       case aggResult of
                                         Inl e \<Rightarrow> Some (Inl e)
                                       | Inr agg \<Rightarrow>
                                           Some (reviseResult newQM (removeEmpty oldResult) agg)))
                        else Some (Inr (removeEmpty oldResult, calls')))) = Some y"
  show "multiResolution (parseOptions opts) \<longrightarrow> (\<exists>e. y = Inl e)"
  proof
    assume multi: "multiResolution (parseOptions opts)"
    show "\<exists>e. y = Inl e"
      by (rule optimizer_body_multi[where f = f and shuf = shuf and calls = calls and qm = qm
            and communities = communities and opts = opts, OF body multi IH])
  qed
qed


text \<open>The body once steps 2 to 6.1 have come through, for any \<open>f\<close> in the place of the call.\<close>

lemma optimizer_body_unfold:
  assumes "GetCompleteCommunities (qm_cm qm) communities = Inr result"
    and "localMoving qm (parseOptions opts) shuf (GetN (qm_cm qm)) (length result) result
           (initCommunityIDs (GetN (qm_cm qm)) result) calls = Some (Inr (moved, calls1))"
    and "multiResolution (parseOptions opts)"
    and "qm_Aggregate qm (removeEmpty moved) = Inr aggQM"
  shows "(case GetCompleteCommunities (qm_cm qm) communities of
             Inl e \<Rightarrow> Some (Inl e)
           | Inr result \<Rightarrow>
               Option.bind
                 (localMoving qm (parseOptions opts) shuf (GetN (qm_cm qm)) (length result)
                    result (initCommunityIDs (GetN (qm_cm qm)) result) calls)
                 (\<lambda>moved.
                    case moved of
                      Inl e \<Rightarrow> Some (Inl e)
                    | Inr (oldResult, calls') \<Rightarrow>
                        if multiResolution (parseOptions opts)
                        then (case qm_Aggregate qm (removeEmpty oldResult) of
                                Inl e \<Rightarrow> Some (Inl e)
                              | Inr newQM \<Rightarrow>
                                  Option.bind
                                    (f shuf calls' qm (removeEmpty oldResult) opts)
                                    (\<lambda>aggResult.
                                       case aggResult of
                                         Inl e \<Rightarrow> Some (Inl e)
                                       | Inr agg \<Rightarrow>
                                           Some (reviseResult newQM (removeEmpty oldResult) agg)))
                        else Some (Inr (removeEmpty oldResult, calls'))))
         = Option.bind (f shuf calls1 qm (removeEmpty moved) opts)
             (\<lambda>aggResult. case aggResult of
                             Inl e \<Rightarrow> Some (Inl e)
                           | Inr agg \<Rightarrow> Some (reviseResult aggQM (removeEmpty moved) agg))"
  by (simp add: assms)

lemma Louvain_step:
  assumes "GetCompleteCommunities (qm_cm qm) communities = Inr result"
    and "localMoving qm (parseOptions opts) shuf (GetN (qm_cm qm)) (length result) result
           (initCommunityIDs (GetN (qm_cm qm)) result) calls = Some (Inr (moved, calls1))"
    and "multiResolution (parseOptions opts)"
    and "qm_Aggregate qm (removeEmpty moved) = Inr aggQM"
  shows "Louvain shuf calls qm communities opts
         = Option.bind (Louvain shuf calls1 qm (removeEmpty moved) opts)
             (\<lambda>aggResult. case aggResult of
                             Inl e \<Rightarrow> Some (Inl e)
                           | Inr agg \<Rightarrow> Some (reviseResult aggQM (removeEmpty moved) agg))"
  by (subst Louvain.simps) (rule optimizer_body_unfold[where f = Louvain, OF assms])

lemma Leiden_step:
  assumes "GetCompleteCommunities (qm_cm qm) communities = Inr result"
    and "localMoving qm (parseOptions opts) shuf (GetN (qm_cm qm)) (length result) result
           (initCommunityIDs (GetN (qm_cm qm)) result) calls = Some (Inr (moved, calls1))"
    and "multiResolution (parseOptions opts)"
    and "qm_Aggregate qm (removeEmpty moved) = Inr aggQM"
  shows "Leiden shuf calls qm communities opts
         = Option.bind (Leiden shuf calls1 qm (removeEmpty moved) opts)
             (\<lambda>aggResult. case aggResult of
                             Inl e \<Rightarrow> Some (Inl e)
                           | Inr agg \<Rightarrow> Some (reviseResult aggQM (removeEmpty moved) agg))"
  by (subst Leiden.simps) (rule optimizer_body_unfold[where f = Leiden, OF assms])

text \<open>
  C3.  Under multiple resolution, once the local moving has ended with the partition
  \<open>moved\<close> and the model has been aggregated over \<open>removeEmpty moved\<close> into \<open>aggQM\<close>,
  the optimizer calls itself on the model \<open>qm\<close> it was given, not on \<open>aggQM\<close>, and
  starts that call from the partition \<open>removeEmpty moved\<close>, not from no partition.  What
  the call returns is then revised as the claim says (\<open>reviseResult\<close>: expanded when it
  has fewer groups than \<open>aggQM\<close> has nodes).
\<close>

theorem step_6_2_runs_on_the_given_model:
  assumes "GetCompleteCommunities (qm_cm qm) communities = Inr result"
    and "localMoving qm (parseOptions opts) shuf (GetN (qm_cm qm)) (length result) result
           (initCommunityIDs (GetN (qm_cm qm)) result) calls = Some (Inr (moved, calls1))"
    and "multiResolution (parseOptions opts)"
    and "qm_Aggregate qm (removeEmpty moved) = Inr aggQM"
  shows "Louvain shuf calls qm communities opts
         = Option.bind (Louvain shuf calls1 qm (removeEmpty moved) opts)
             (\<lambda>aggResult. case aggResult of
                             Inl e \<Rightarrow> Some (Inl e)
                           | Inr agg \<Rightarrow> Some (reviseResult aggQM (removeEmpty moved) agg))
         \<and> Leiden shuf calls qm communities opts
           = Option.bind (Leiden shuf calls1 qm (removeEmpty moved) opts)
               (\<lambda>aggResult. case aggResult of
                               Inl e \<Rightarrow> Some (Inl e)
                             | Inr agg \<Rightarrow> Some (reviseResult aggQM (removeEmpty moved) agg))"
  using Louvain_step[OF assms] Leiden_step[OF assms] by blast

text \<open>The run on two nodes joined by an edge, with the default options.\<close>

lemma two_sweep1:
  "seqSweep (Modularity (Finite 1) twoNodeModel) 2 [0..<2] ([{0}, {1}], [0, 1], True)
   = Inr ([{}, {0, 1}], [1, 1], False)"
  by code_simp

lemma two_sweep2:
  "seqSweep (Modularity (Finite 1) twoNodeModel) 2 [0..<2] ([{}, {0, 1}], [1, 1], True)
   = Inr ([{}, {0, 1}], [1, 1], True)"
  by code_simp

lemma two_sweep3:
  "seqSweep (Modularity (Finite 1) twoNodeModel) 1 [0..<2] ([{0, 1}], [0, 0], True)
   = Inr ([{0, 1}], [0, 0], True)"
  by code_simp

lemma two_moving1:
  assumes "useSeqSelector os" "\<not> shuffle os"
  shows "localMoving (Modularity (Finite 1) twoNodeModel) os shuf 2 2 [{0}, {1}] [0, 1] calls
         = Some (Inr ([{}, {0, 1}], calls))"
proof -
  let ?qm = "Modularity (Finite 1) twoNodeModel"
  have ao: "accessOrder os shuf c 2 = [0..<2]" for c
    using assms(2) by (rule accessOrder_noshuffle)
  have nc: "nextCalls os c = c" for c
    using assms(2) by (rule nextCalls_noshuffle)
  have s1: "seqSweep ?qm 2 (accessOrder os shuf calls 2) ([{0}, {1}], [0, 1], True)
            = Inr ([{}, {0, 1}], [1, 1], False)"
    unfolding ao by (rule two_sweep1)
  have s2: "seqSweep ?qm 2 (accessOrder os shuf calls 2) ([{}, {0, 1}], [1, 1], True)
            = Inr ([{}, {0, 1}], [1, 1], True)"
    unfolding ao by (rule two_sweep2)
  have "localMoving ?qm os shuf 2 2 [{0}, {1}] [0, 1] calls
        = localMoving ?qm os shuf 2 2 [{}, {0, 1}] [1, 1] calls"
    using localMoving_seq_again[OF assms(1) s1] unfolding nc .
  also have "\<dots> = Some (Inr ([{}, {0, 1}], calls))"
    using localMoving_seq_done[OF assms(1) s2] unfolding nc .
  finally show ?thesis .
qed

lemma two_moving2:
  assumes "useSeqSelector os" "\<not> shuffle os"
  shows "localMoving (Modularity (Finite 1) twoNodeModel) os shuf 2 1 [{0, 1}] [0, 0] calls
         = Some (Inr ([{0, 1}], calls))"
proof -
  let ?qm = "Modularity (Finite 1) twoNodeModel"
  have ao: "accessOrder os shuf c 2 = [0..<2]" for c
    using assms(2) by (rule accessOrder_noshuffle)
  have nc: "nextCalls os c = c" for c
    using assms(2) by (rule nextCalls_noshuffle)
  have s3: "seqSweep ?qm 1 (accessOrder os shuf calls 2) ([{0, 1}], [0, 0], True)
            = Inr ([{0, 1}], [0, 0], True)"
    unfolding ao by (rule two_sweep3)
  show ?thesis
    using localMoving_seq_done[OF assms(1) s3] unfolding nc .
qed

lemma two_aggregate:
  "\<exists>aggQM. qm_Aggregate (Modularity (Finite 1) twoNodeModel) [{0, 1}] = Inr aggQM"
  using Aggregate_nonempty[of "[{0, 1}]" twoNodeModel] by auto

lemma two_start_facts:
  "GetCompleteCommunities (qm_cm (Modularity (Finite 1) twoNodeModel)) [] = Inr [{0}, {1}]"
  "localMoving (Modularity (Finite 1) twoNodeModel) (parseOptions []) shuf
     (GetN (qm_cm (Modularity (Finite 1) twoNodeModel))) (length [{0}, {1::nat}]) [{0}, {1}]
     (initCommunityIDs (GetN (qm_cm (Modularity (Finite 1) twoNodeModel))) [{0}, {1}]) calls
   = Some (Inr ([{}, {0, 1}], calls))"
  "removeEmpty [{}, {0, 1::nat}] = [{0, 1}]"
proof -
  let ?qm = "Modularity (Finite 1) twoNodeModel"
  show "GetCompleteCommunities (qm_cm ?qm) [] = Inr [{0}, {1}]"
    by code_simp
  have n: "GetN (qm_cm ?qm) = 2"
    by (simp add: GetN_def twoNodeModel_def)
  have len: "length [{0}, {1::nat}] = 2"
    by simp
  have ids: "initCommunityIDs 2 [{0}, {1}] = [0, 1]"
    by code_simp
  show "localMoving ?qm (parseOptions []) shuf (GetN (qm_cm ?qm)) (length [{0}, {1::nat}])
          [{0}, {1}] (initCommunityIDs (GetN (qm_cm ?qm)) [{0}, {1}]) calls
        = Some (Inr ([{}, {0, 1}], calls))"
    unfolding n len ids by (rule two_moving1) (simp_all add: parse_default)
  show "removeEmpty [{}, {0, 1::nat}] = [{0, 1}]"
    by (simp add: removeEmpty_def)
qed

lemma two_again_facts:
  "GetCompleteCommunities (qm_cm (Modularity (Finite 1) twoNodeModel)) [{0, 1}] = Inr [{0, 1}]"
  "localMoving (Modularity (Finite 1) twoNodeModel) (parseOptions []) shuf
     (GetN (qm_cm (Modularity (Finite 1) twoNodeModel))) (length [{0, 1::nat}]) [{0, 1}]
     (initCommunityIDs (GetN (qm_cm (Modularity (Finite 1) twoNodeModel))) [{0, 1}]) calls
   = Some (Inr ([{0, 1}], calls))"
  "removeEmpty [{0, 1::nat}] = [{0, 1}]"
proof -
  let ?qm = "Modularity (Finite 1) twoNodeModel"
  show "GetCompleteCommunities (qm_cm ?qm) [{0, 1}] = Inr [{0, 1}]"
    by code_simp
  have n: "GetN (qm_cm ?qm) = 2"
    by (simp add: GetN_def twoNodeModel_def)
  have len: "length [{0, 1::nat}] = 1"
    by simp
  have ids: "initCommunityIDs 2 [{0, 1}] = [0, 0]"
    by code_simp
  show "localMoving ?qm (parseOptions []) shuf (GetN (qm_cm ?qm)) (length [{0, 1::nat}])
          [{0, 1}] (initCommunityIDs (GetN (qm_cm ?qm)) [{0, 1}]) calls
        = Some (Inr ([{0, 1}], calls))"
    unfolding n len ids by (rule two_moving2) (simp_all add: parse_default)
  show "removeEmpty [{0, 1::nat}] = [{0, 1}]"
    by (simp add: removeEmpty_def)
qed

theorem step_6_2_runs_on_the_given_model_witness:
  "GetCompleteCommunities (qm_cm (Modularity (Finite 1) twoNodeModel)) [] = Inr [{0}, {1}]
   \<and> localMoving (Modularity (Finite 1) twoNodeModel) (parseOptions []) keepOrder
        (GetN (qm_cm (Modularity (Finite 1) twoNodeModel))) (length [{0}, {1::nat}]) [{0}, {1}]
        (initCommunityIDs (GetN (qm_cm (Modularity (Finite 1) twoNodeModel))) [{0}, {1}]) 0
      = Some (Inr ([{}, {0, 1}], 0))
   \<and> multiResolution (parseOptions [])
   \<and> (\<exists>aggQM. qm_Aggregate (Modularity (Finite 1) twoNodeModel) (removeEmpty [{}, {0, 1}])
                 = Inr aggQM
         \<and> Louvain keepOrder 0 (Modularity (Finite 1) twoNodeModel) [] []
           = Option.bind
               (Louvain keepOrder 0 (Modularity (Finite 1) twoNodeModel)
                  (removeEmpty [{}, {0, 1}]) [])
               (\<lambda>aggResult. case aggResult of
                               Inl e \<Rightarrow> Some (Inl e)
                             | Inr agg \<Rightarrow>
                                 Some (reviseResult aggQM (removeEmpty [{}, {0, 1}]) agg)))"
proof -
  let ?qm = "Modularity (Finite 1) twoNodeModel"
  have multi: "multiResolution (parseOptions [])"
    by (simp add: parse_default)
  from two_aggregate obtain aggQM where
    agg: "qm_Aggregate ?qm (removeEmpty [{}, {0, 1}]) = Inr aggQM"
    unfolding two_start_facts(3) by blast
  from step_6_2_runs_on_the_given_model[OF two_start_facts(1) two_start_facts(2) multi agg,
      of keepOrder 0]
  have "Louvain keepOrder 0 ?qm [] []
        = Option.bind (Louvain keepOrder 0 ?qm (removeEmpty [{}, {0, 1}]) [])
            (\<lambda>aggResult. case aggResult of
                            Inl e \<Rightarrow> Some (Inl e)
                          | Inr agg \<Rightarrow> Some (reviseResult aggQM (removeEmpty [{}, {0, 1}]) agg))"
    by blast
  with two_start_facts(1) two_start_facts(2)[of keepOrder 0] multi agg show ?thesis
    by blast
qed

text \<open>
  On that input the call does not return at all: from the second call on, every call is
  made with the arguments of its caller.
\<close>

lemma Louvain_two_nodes_again:
  "Louvain shuf calls (Modularity (Finite 1) twoNodeModel) [{0, 1}] [] = None"
proof -
  let ?qm = "Modularity (Finite 1) twoNodeModel"
  have multi: "multiResolution (parseOptions [])"
    by (simp add: parse_default)
  from two_aggregate obtain aggQM where
    agg: "qm_Aggregate ?qm (removeEmpty [{0, 1}]) = Inr aggQM"
    unfolding two_again_facts(3) by blast
  have never: "\<not> (qm = ?qm \<and> communities = [{0, 1}] \<and> opts = [])"
    if run: "Louvain shuf calls qm communities opts = Some y"
    for shuf calls qm communities opts y
  proof (rule Louvain.raw_induct[where P = "\<lambda>shuf calls qm communities opts y.
            \<not> (qm = ?qm \<and> communities = [{0, 1}] \<and> opts = [])", OF _ run])
    fix f :: "(nat \<Rightarrow> nat list \<Rightarrow> nat list) \<Rightarrow> nat \<Rightarrow> QualityModel \<Rightarrow> community list \<Rightarrow> string list
              \<Rightarrow> (error + (community list \<times> nat)) option"
    fix shuf calls qm communities opts y
    assume IH: "\<And>shuf calls qm communities opts y.
                  f shuf calls qm communities opts = Some y \<Longrightarrow>
                  \<not> (qm = ?qm \<and> communities = [{0, 1}] \<and> opts = [])"
    assume body: "(case GetCompleteCommunities (qm_cm qm) communities of
             Inl e \<Rightarrow> Some (Inl e)
           | Inr result \<Rightarrow>
               Option.bind
                 (localMoving qm (parseOptions opts) shuf (GetN (qm_cm qm)) (length result)
                    result (initCommunityIDs (GetN (qm_cm qm)) result) calls)
                 (\<lambda>moved.
                    case moved of
                      Inl e \<Rightarrow> Some (Inl e)
                    | Inr (oldResult, calls') \<Rightarrow>
                        if multiResolution (parseOptions opts)
                        then (case qm_Aggregate qm (removeEmpty oldResult) of
                                Inl e \<Rightarrow> Some (Inl e)
                              | Inr newQM \<Rightarrow>
                                  Option.bind
                                    (f shuf calls' qm (removeEmpty oldResult) opts)
                                    (\<lambda>aggResult.
                                       case aggResult of
                                         Inl e \<Rightarrow> Some (Inl e)
                                       | Inr agg \<Rightarrow>
                                           Some (reviseResult newQM (removeEmpty oldResult) agg)))
                        else Some (Inr (removeEmpty oldResult, calls')))) = Some y"
    show "\<not> (qm = ?qm \<and> communities = [{0, 1}] \<and> opts = [])"
    proof
      assume here: "qm = ?qm \<and> communities = [{0, 1}] \<and> opts = []"
      from here have qm: "qm = ?qm" and cs: "communities = [{0, 1}]" and os: "opts = []"
        by simp_all
      from body
      have "Option.bind (f shuf calls ?qm (removeEmpty [{0, 1}]) [])
              (\<lambda>aggResult. case aggResult of
                              Inl e \<Rightarrow> Some (Inl e)
                            | Inr agg \<Rightarrow> Some (reviseResult aggQM (removeEmpty [{0, 1}]) agg))
            = Some y"
        unfolding qm cs os
          optimizer_body_unfold[where f = f, OF two_again_facts(1) two_again_facts(2) multi agg,
            of shuf calls] .
      then obtain y' where "f shuf calls ?qm (removeEmpty [{0, 1}]) [] = Some y'"
        by (auto simp: bind_eq_Some_conv)
      from IH[OF this] show False
        unfolding two_again_facts(3) by simp
    qed
  qed
  show ?thesis
  proof (cases "Louvain shuf calls ?qm [{0, 1}] []")
    case None
    then show ?thesis .
  next
    case (Some y)
    from never[OF Some] show ?thesis by simp
  qed
qed

lemma Louvain_two_nodes_diverges:
  "Louvain shuf calls (Modularity (Finite 1) twoNodeModel) [] [] = None"
proof -
  let ?qm = "Modularity (Finite 1) twoNodeModel"
  have multi: "multiResolution (parseOptions [])"
    by (simp add: parse_default)
  from two_aggregate obtain aggQM where
    agg: "qm_Aggregate ?qm (removeEmpty [{}, {0, 1}]) = Inr aggQM"
    unfolding two_start_facts(3) by blast
  from Louvain_step[OF two_start_facts(1) two_start_facts(2) multi agg, of shuf calls]
  show ?thesis
    unfolding two_start_facts(3) Louvain_two_nodes_again by simp
qed

section \<open>Termination of the optimizers\<close>

text \<open>
  C1.  Under multiple resolution, which is the default, neither optimizer ever returns a
  partition, whatever the quality model and the initial partition: step 6.2 calls the
  optimizer again, on the same model \<open>qm\<close> and with the same options, whenever steps 2 to
  6.1 come through, so a call either ends in a fatal error or a panic, or does not end.
\<close>

theorem optimizers_return_no_partition_under_multi_resolution:
  assumes "multiResolution (parseOptions opts)"
  shows "Louvain shuf calls qm communities opts \<noteq> Some (Inr r)
         \<and> Leiden shuf calls qm communities opts \<noteq> Some (Inr r)"
  using assms Louvain_multi_not_Inr[of shuf calls qm communities opts "Inr r"]
    Leiden_multi_not_Inr[of shuf calls qm communities opts "Inr r"]
  by auto

theorem optimizers_return_no_partition_under_multi_resolution_witness:
  "multiResolution (parseOptions [])
   \<and> Louvain keepOrder 0 (Modularity (Finite 1) twoNodeModel) [] [] \<noteq> Some (Inr ([{0, 1}], 0))
   \<and> Leiden keepOrder 0 (Modularity (Finite 1) twoNodeModel) [] [] \<noteq> Some (Inr ([{0, 1}], 0))
   \<and> Louvain keepOrder 0 (Modularity (Finite 1) twoNodeModel) [] [] = None"
proof -
  have multi: "multiResolution (parseOptions [])"
    by (simp add: parse_default)
  from optimizers_return_no_partition_under_multi_resolution[OF multi] multi
    Louvain_two_nodes_diverges[of keepOrder 0]
  show ?thesis by blast
qed

section \<open>The merge step of the agglomerative clustering\<close>

lemma mergeClusters_stop:
  assumes "eps < fst (findMinDist distMat)"
  shows "mergeClusters distMat communities eps = Inr communities"
  using assms by (subst mergeClusters.simps) simp

lemma mergeClusters_merge:
  assumes "\<not> eps < fst (findMinDist distMat)"
    and "findMinDist distMat = (d, i, j)"
    and "communities \<noteq> []"
    and "\<not> (min i j < length communities - 1 \<and> length communities \<le> max i j)"
    and "\<forall>k\<in>set [0..<length communities - 1]. oldK (max i j) k < length distMat"
  shows "mergeClusters distMat communities eps
         = mergeClusters (mergeDistMat (min i j) (max i j) distMat (length communities - 1))
             (mergeCommunities (min i j) (max i j) communities) eps"
proof -
  from assms(5) have rows: "\<not> (\<exists>k\<in>set [0..<length communities - 1].
                                length distMat \<le> oldK (max i j) k)"
    by (auto simp: not_le)
  have sel: "fst (snd (findMinDist distMat)) = i" "snd (snd (findMinDist distMat)) = j"
    by (simp_all add: assms(2))
  show ?thesis
    apply (subst mergeClusters.simps)
    unfolding sel
    using assms(1,3,4) rows by auto
qed

lemma sorted_keys:
  "sorted_list_of_set {0, 2::nat} = [0, 2]"
  "sorted_list_of_set {2, 0::nat} = [0, 2]"
  "sorted_list_of_set {1::nat} = [1]"
  "sorted_list_of_set ({}::nat set) = []"
  by code_simp+

lemma path_findMinDist: "findMinDist pathDist = (Finite (1/4), 0, 1)"
  by (simp add: findMinDist_def pathDist_def scanRow_def sorted_keys upt_rec)

lemma path_mergeDistMat: "mergeDistMat 0 1 pathDist 2 = [Map.empty, Map.empty]"
  by (simp add: mergeDistMat_def mergeRow_def oldK_def pathDist_def sorted_keys upt_rec)

lemma path_mergeCommunities: "mergeCommunities 0 1 [{0}, {1}, {2}] = [{0, 1}, {2::nat}]"
  by (simp add: mergeCommunities_def upt_rec insert_commute)

lemma empty_findMinDist: "findMinDist [Map.empty, Map.empty] = (Finite 1, 0, 0)"
  by (simp add: findMinDist_def scanRow_def upt_rec)

text \<open>
  C6.  On the three clusters of the path, with \<open>eps = 1/2\<close>: the least distance is
  \<open>1/4\<close>, between the clusters 0 and 1, which are merged.  The new matrix has two
  empty rows: the row of the merged cluster is the old row 0 without its entry for
  cluster 1 (the old row 1, with the distance \<open>1/2\<close> to cluster 2, is dropped, not
  merged in), and the row of cluster 2 loses its only entry, which was in column 1, since
  it has none in column 0.  So the distance \<open>1/2\<close> between \<open>{1}\<close> and \<open>{2}\<close>, which does
  not exceed \<open>eps\<close>, is lost, the next minimum is the initial \<open>1.0\<close>, and the result is
  \<open>{0, 1}, {2}\<close>.
\<close>

theorem mergeClusters_loses_distances:
  "findMinDist pathDist = (Finite (1/4), 0, 1)
   \<and> mergeCommunities 0 1 [{0}, {1}, {2}] = [{0, 1}, {2}]
   \<and> mergeDistMat 0 1 pathDist 2 = [Map.empty, Map.empty]
   \<and> mergeClusters pathDist [{0}, {1}, {2}] (Finite (1/2)) = Inr [{0, 1}, {2}]"
proof -
  have go: "\<not> Finite (1/2) < fst (findMinDist pathDist)"
    by (simp add: path_findMinDist)
  have "mergeClusters pathDist [{0}, {1}, {2}] (Finite (1/2))
        = mergeClusters (mergeDistMat (min 0 1) (max 0 1) pathDist (length [{0}, {1}, {2::nat}] - 1))
            (mergeCommunities (min 0 1) (max 0 1) [{0}, {1}, {2}]) (Finite (1/2))"
    by (rule mergeClusters_merge[OF go path_findMinDist])
       (simp_all add: oldK_def pathDist_def)
  also have "min 0 (1::nat) = 0" by simp
  also have "max 0 (1::nat) = 1" by simp
  also have "length [{0}, {1}, {2::nat}] - 1 = 2" by simp
  also note path_mergeDistMat
  also note path_mergeCommunities
  also have "mergeClusters [Map.empty, Map.empty] [{0, 1}, {2}] (Finite (1/2)) = Inr [{0, 1}, {2}]"
    by (rule mergeClusters_stop) (simp add: empty_findMinDist)
  finally have "mergeClusters pathDist [{0}, {1}, {2}] (Finite (1/2)) = Inr [{0, 1}, {2}]" .
  with path_findMinDist path_mergeCommunities path_mergeDistMat show ?thesis by blast
qed

section \<open>Density-based clustering on graphs with a node without neighbours\<close>

lemma keep_eval:
  "keep P (insert a A) = (if P a then insert a (keep P A) else keep P A)"
  "keep P {} = {}"
  by (auto simp: keep_def)

lemma isolatedLastModel_built: "SetConcurrences 3 isolatedLast = Inr isolatedLastModel"
  by (simp add: SetConcurrences_def verifyConcurrences_def maxNodeID_def nodeIDs_def isolatedLast_def
      asymmetricAt_def getSumConcurrencesOf_def sumRow_def upt_rec meanOf_def varOf_def
      lenRow_def float64_of_uint_def float64_of_nat_def isolatedLastModel_def)

lemma isolatedFirstModel_built: "SetConcurrences 3 isolatedFirst = Inr isolatedFirstModel"
  by (simp add: SetConcurrences_def verifyConcurrences_def maxNodeID_def nodeIDs_def isolatedFirst_def
      asymmetricAt_def getSumConcurrencesOf_def sumRow_def upt_rec meanOf_def varOf_def
      lenRow_def float64_of_uint_def float64_of_nat_def isolatedFirstModel_def)

lemma last_no_panic: "\<not> sumIndexPanics isolatedLastModel"
  by (simp add: sumIndexPanics_def isolatedLastModel_def isolatedLast_def GetConcurrencesOf_def upt_rec)

lemma first_no_panic: "\<not> sumIndexPanics isolatedFirstModel"
  by (simp add: sumIndexPanics_def isolatedFirstModel_def isolatedFirst_def GetConcurrencesOf_def upt_rec)

lemma last_similarities: "InduceSimilarities isolatedLastModel = Inr lastSim"
  unfolding InduceSimilarities_def lastSim_def using last_no_panic
  by (auto simp: plainRow_def isolatedLastModel_def isolatedLast_def GetConcurrencesOf_def
      float64_of_uint_def fun_eq_iff nth_Cons' split: option.splits)

lemma first_similarities: "InduceSimilarities isolatedFirstModel = Inr firstSim"
  unfolding InduceSimilarities_def firstSim_def using first_no_panic
  by (auto simp: plainRow_def isolatedFirstModel_def isolatedFirst_def GetConcurrencesOf_def
      float64_of_uint_def fun_eq_iff nth_Cons' split: option.splits)

lemma first_core: "getCorePoints firstSim (Finite 0) 2 = Inl InvalidSimilarityMatrix"
  by (simp add: getCorePoints_def firstSim_def upt_rec)

lemma DBScan_fatal_core:
  assumes "induce erf cm simType = Inr simMat" "getCorePoints simMat eps minPts = Inl e"
  shows "DBScan erf cm eps minPts simType = Some (Inl e)"
  using assms by (simp add: DBScan_def)

lemma DBScan_clusters:
  assumes "induce erf cm simType = Inr simMat"
    and "getCorePoints simMat eps minPts = Inr corePts"
    and "getNeighbors simMat eps minPts corePts = Inr (coreNeighbors, noncoreNeighbors)"
    and "clusterLoop (GetN cm) corePts coreNeighbors noncoreNeighbors [] Map.empty
         = Some (communities, communityIDs)"
  shows "DBScan erf cm eps minPts simType
         = Some (Inr (communities
                      @ map (\<lambda>pt. {pt})
                          (sorted_list_of_set (keep (\<lambda>pt. pt \<notin> dom communityIDs) (dom simMat)))))"
  using assms by (simp add: DBScan_def)

lemma induce_plain: "induce erf cm 0 = InduceSimilarities cm"
  by (simp add: induce_def)

lemma dom_assignTo: "dom (assignTo pts c ids) = pts \<union> dom ids"
  by (auto simp: assignTo_def split: if_splits)

lemma expandBoundary_done:
  "expandBoundary cn ncn c {} newCommunity ids = Some (newCommunity, ids)"
  by (subst expandBoundary.simps) simp

lemma expandBoundary_step:
  assumes "boundary \<noteq> {}"
  shows "expandBoundary cn ncn c boundary newCommunity ids
         = expandBoundary cn ncn c
             (neighborsOfBoundary cn boundary - dom ids)
             (newCommunity \<union> (neighborsOfBoundary ncn boundary - dom ids)
                \<union> (neighborsOfBoundary cn boundary - dom ids))
             (assignTo ((neighborsOfBoundary ncn boundary - dom ids)
                        \<union> (neighborsOfBoundary cn boundary - dom ids)) c ids)"
  using assms by (subst expandBoundary.simps) simp

lemma clusterLoop_done:
  assumes "pickCenter k corePts ids = k"
  shows "clusterLoop k corePts cn ncn communities ids = Some (communities, ids)"
  using assms by (subst clusterLoop.simps) simp

lemma clusterLoop_step:
  assumes "pickCenter k corePts ids = centerPt" "centerPt \<noteq> k"
    and "expandBoundary cn ncn (length communities) {centerPt} {centerPt}
           (ids(centerPt \<mapsto> length communities)) = Some (newCommunity, ids')"
  shows "clusterLoop k corePts cn ncn communities ids
         = clusterLoop k corePts cn ncn (communities @ [newCommunity]) ids'"
  using assms by (subst clusterLoop.simps) simp

lemma last_core: "getCorePoints lastSim (Finite 0) 2 = Inr [0 \<mapsto> 2, 1 \<mapsto> 2]"
  by (auto simp: getCorePoints_def lastSim_def upt_rec density_def keep_eval fun_eq_iff)

lemma last_neighbors: "getNeighbors lastSim (Finite 0) 2 [0 \<mapsto> 2, 1 \<mapsto> 2]
            = Inr ([0 \<mapsto> {1}, 1 \<mapsto> {0}], [0 \<mapsto> {}, 1 \<mapsto> {}])"
  by (auto simp: getNeighbors_def lastSim_def neighborhood_def keep_eval fun_eq_iff)

lemma last_pick1: "pickCenter 3 [0 \<mapsto> 2, 1 \<mapsto> 2] Map.empty = 0"
  by (simp add: pickCenter_def centerCandidates_def keep_eval)

lemma last_pick2: "dom ids = {0, 1} \<Longrightarrow> pickCenter 3 [0 \<mapsto> 2, 1 \<mapsto> 2] ids = 3"
  by (simp add: pickCenter_def centerCandidates_def keep_eval)

lemma last_grow:
  "\<exists>ids'. expandBoundary [0 \<mapsto> {1}, 1 \<mapsto> {0}] [0 \<mapsto> {}, 1 \<mapsto> {}] 0 {0} {0} [0 \<mapsto> 0]
          = Some ({0, 1}, ids') \<and> dom ids' = {0, 1}"
  apply (subst expandBoundary_step, simp)
  apply (simp add: neighborsOfBoundary_def dom_assignTo)
  apply (subst expandBoundary_step, simp)
  apply (simp add: neighborsOfBoundary_def dom_assignTo)
  apply (subst expandBoundary_done)
  apply (auto simp: dom_assignTo)
  done


text \<open>
  C5.  Both graphs have three nodes and are built by \<open>SetConcurrences\<close>.  The plain
  transform leaves the node without a neighbour out of the similarity matrix, and \<open>DBScan\<close>
  takes the points to be \<open>0, \<dots>, len(simMat) - 1\<close>.  When the node left out is node 2,
  \<open>DBScan\<close> (with \<open>eps = 0\<close>, \<open>minPts = 2\<close>) returns the one cluster \<open>{0, 1}\<close>: node 2 is in
  no cluster.  When it is node 0, the row of point 0 is missing and \<open>DBScan\<close> ends in the
  fatal error "Invalid similarity matrix".
\<close>

theorem DBScan_loses_nodes_without_neighbours:
  "SetConcurrences 3 isolatedLast = Inr isolatedLastModel
   \<and> DBScan erf isolatedLastModel (Finite 0) 2 0 = Some (Inr [{0, 1}])
   \<and> SetConcurrences 3 isolatedFirst = Inr isolatedFirstModel
   \<and> DBScan erf isolatedFirstModel (Finite 0) 2 0 = Some (Inl InvalidSimilarityMatrix)"
proof -
  let ?corePts = "[0 \<mapsto> 2, 1 \<mapsto> 2::nat]"
  let ?cn = "[0 \<mapsto> {1}, 1 \<mapsto> {0::nat}]"
  let ?ncn = "[0 \<mapsto> {}, 1 \<mapsto> {}::nat set]"
  have n: "GetN isolatedLastModel = 3"
    by (simp add: GetN_def isolatedLastModel_def)
  from last_grow obtain ids' where
    grow: "expandBoundary ?cn ?ncn 0 {0} {0} [0 \<mapsto> 0] = Some ({0, 1}, ids')"
    and dom_ids: "dom ids' = {0, 1}"
    by blast
  from grow have grow':
    "expandBoundary ?cn ?ncn (length ([]::community list)) {0} {0}
       (Map.empty(0 \<mapsto> length ([]::community list))) = Some ({0, 1}, ids')"
    by simp
  have "clusterLoop 3 ?corePts ?cn ?ncn [] Map.empty
        = clusterLoop 3 ?corePts ?cn ?ncn ([] @ [{0, 1}]) ids'"
    by (rule clusterLoop_step[OF last_pick1 _ grow']) simp
  also have "\<dots> = Some ([] @ [{0, 1}], ids')"
    by (rule clusterLoop_done[OF last_pick2[OF dom_ids]])
  finally have loop:
    "clusterLoop (GetN isolatedLastModel) ?corePts ?cn ?ncn [] Map.empty = Some ([{0, 1}], ids')"
    unfolding n by simp
  have rest: "sorted_list_of_set (keep (\<lambda>pt. pt \<notin> dom ids') (dom lastSim)) = []"
    by (simp add: lastSim_def dom_ids keep_eval)
  have "DBScan erf isolatedLastModel (Finite 0) 2 0 = Some (Inr [{0, 1}])"
    using DBScan_clusters[OF _ last_core last_neighbors loop, of erf 0]
    unfolding rest by (simp add: induce_plain last_similarities)
  moreover have "DBScan erf isolatedFirstModel (Finite 0) 2 0 = Some (Inl InvalidSimilarityMatrix)"
    by (rule DBScan_fatal_core[OF _ first_core]) (simp add: induce_plain first_similarities)
  ultimately show ?thesis
    using isolatedLastModel_built isolatedFirstModel_built by blast
qed

section \<open>Similarities induced from concurrences\<close>
























text \<open>
  The transforms built on the error function divide by the variance of a node's weights,
  which is 0 when the weights of the node are all equal.  On the graph of two nodes joined
  by an edge of weight 1 the weight is the mean and the variance is 0: the quotient is
  \<open>0 / 0\<close>, and when \<open>erf\<close> maps \<open>NaN\<close> to \<open>NaN\<close>, as \<open>math.Erf\<close> does, the value of the
  pair \<open>(0, 1)\<close> is \<open>NaN\<close>.
\<close>

lemma Normalized_not_a_number:
  assumes "erf NaN = NaN"
  shows "\<exists>S. InduceNormalizedSimilarities erf twoNodeModel = Inr S \<and> entry S 0 1 = Some NaN"
  using assms
  by (simp add: InduceNormalizedSimilarities_def momentIndexPanics_def normalizedWeight_def
      entry_def GetConcurrencesOf_def twoNodeModel_def twoNodes_def float64_of_uint_def
      plus_float64_def minus_float64_def times_float64_def divide_float64_def upt_rec)

end
